theory Spec2Isabelle
  imports Complex_Main "HOL-Library.Sublist" "HOL-Library.Multiset"
begin

section \<open>Python values\<close>

text \<open>
  A Python \<open>str\<close> is a sequence of Unicode code points, so it is modelled as a list of
  naturals. The Japanese literals of the scripts are written as their code points, with
  a transliteration beside them; ASCII literals are written with \<open>ascii\<close>.
\<close>

type_synonym ustr = "nat list"

definition ascii :: "string \<Rightarrow> ustr" where
  "ascii s = map of_char s"

text \<open>The exceptions the modelled code can raise.\<close>

datatype pyerr = KeyError | ValueError

text \<open>\<open>needle in hay\<close> on strings: \<open>needle\<close> occurs as a contiguous substring.\<close>

fun str_in :: "ustr \<Rightarrow> ustr \<Rightarrow> bool" where
  "str_in needle [] = (needle = [])"
| "str_in needle (c # cs) = (prefix needle (c # cs) \<or> str_in needle cs)"

text \<open>
  \<open>str.strip()\<close> removes leading and trailing white space; \<open>py_isspace\<close> is the set of
  code points for which \<open>str.isspace\<close> holds.
\<close>

definition py_isspace :: "nat \<Rightarrow> bool" where
  "py_isspace c = (c \<in> set [0x9, 0xA, 0xB, 0xC, 0xD, 0x1C, 0x1D, 0x1E, 0x1F, 0x20, 0x85, 0xA0,
     0x1680, 0x2000, 0x2001, 0x2002, 0x2003, 0x2004, 0x2005, 0x2006, 0x2007, 0x2008,
     0x2009, 0x200A, 0x2028, 0x2029, 0x202F, 0x205F, 0x3000])"

definition strip :: "ustr \<Rightarrow> ustr" where
  "strip s = rev (dropWhile py_isspace (rev (dropWhile py_isspace s)))"

text \<open>\<open>sep.join(parts)\<close>.\<close>

fun join :: "ustr \<Rightarrow> ustr list \<Rightarrow> ustr" where
  "join sep [] = []"
| "join sep [p] = p"
| "join sep (p # q # ps) = p @ sep @ join sep (q # ps)"

text \<open>
  A row of \<open>csv.DictReader\<close> is a dict from column name to cell text; it is modelled as
  an association list in key order, read with \<open>map_of\<close>. \<open>getitem\<close> is \<open>row[k]\<close>,
  \<open>get_default\<close> is \<open>row.get(k, d)\<close> and \<open>row_keys\<close> is \<open>row.keys()\<close>.
\<close>

type_synonym row = "(ustr \<times> ustr) list"

definition getitem :: "row \<Rightarrow> ustr \<Rightarrow> pyerr + ustr" where
  "getitem r k = (case map_of r k of None \<Rightarrow> Inl KeyError | Some v \<Rightarrow> Inr v)"

definition get_default :: "row \<Rightarrow> ustr \<Rightarrow> ustr \<Rightarrow> ustr" where
  "get_default r k d = (case map_of r k of None \<Rightarrow> d | Some v \<Rightarrow> v)"

definition row_keys :: "row \<Rightarrow> ustr list" where
  "row_keys r = map fst r"

section \<open>CSV files\<close>

text \<open>
  Files are modelled at the interface of the \<open>csv\<close> module. A file that was opened for
  writing and never written to is \<open>Empty_file\<close>; a file with a header line and records is
  a \<open>Table\<close> of the field names and the rows, as \<open>DictReader\<close> yields them and as
  \<open>DictWriter.writerows\<close> receives them.
\<close>

datatype csv_file = Empty_file | Table (fieldnames: "ustr list") (records: "row list")

text \<open>
  \<open>DictWriter(f, fieldnames=headers)\<close>, \<open>writeheader()\<close>, \<open>writerows(rows)\<close>: a row with a
  key that is not a field name raises ValueError (the default \<open>extrasaction\<close>).
\<close>

definition write_csv :: "ustr list \<Rightarrow> row list \<Rightarrow> pyerr + csv_file" where
  "write_csv headers rs =
     (if list_all (\<lambda>r. list_all (\<lambda>k. k \<in> set headers) (row_keys r)) rs
      then Inr (Table headers rs) else Inl ValueError)"

text \<open>\<open>os.path.join(d, name)\<close> for a relative \<open>name\<close>.\<close>

definition path_join :: "ustr \<Rightarrow> ustr \<Rightarrow> ustr" where
  "path_join d name =
     (if d = [] then name
      else if last d = 0x2F then d @ name
      else d @ ascii ''/'' @ name)"



section \<open>Schema transformer: boolean markers\<close>

text \<open>The markers: a white circle (U+25CB) and a multiplication sign (U+00D7).\<close>

definition MARU :: ustr where
  "MARU = [0x25CB]"

definition BATSU :: ustr where
  "BATSU = [0xD7]"

definition str_TRUE :: ustr where
  "str_TRUE = ascii ''TRUE''"

definition str_FALSE :: ustr where
  "str_FALSE = ascii ''FALSE''"

text \<open>\<open>convert_boolean_value\<close> of csv_transformer.py.\<close>

definition convert_boolean_value :: "ustr \<Rightarrow> ustr" where
  "convert_boolean_value v =
     (if v = MARU then str_TRUE
      else if v = BATSU then str_FALSE
      else str_FALSE)"

text \<open>\<open>convert_boolean_value\<close> of csv_transformer_builtin.py.\<close>

definition convert_boolean_value_builtin :: "ustr \<Rightarrow> ustr" where
  "convert_boolean_value_builtin v =
     (if v = MARU then str_TRUE
      else if v = BATSU then str_FALSE
      else str_FALSE)"


subsection \<open>The transformer with the csv module (csv\_transformer\_builtin.py)\<close>

definition col_facility_name :: ustr where
  "col_facility_name = [0x65BD, 0x8A2D, 0x540D]"  \<comment> \<open>shisetsu-mei (facility name)\<close>

text \<open>The 31 columns of the output, and the 9 columns that hold markers.\<close>

definition target_columns :: "ustr list" where
  "target_columns = [
     [0x65BD, 0x8A2D, 0x540D],  \<comment> \<open>shisetsu-mei (facility name)\<close>
     [0x90FD, 0x9053, 0x5E9C, 0x770C],  \<comment> \<open>todofuken (prefecture)\<close>
     [0x5E02, 0x533A, 0x753A, 0x6751, 0x30FB, 0x756A, 0x5730],  \<comment> \<open>shikuchoson banchi (municipality and street)\<close>
     [0x30C8, 0x30A4, 0x30EC, 0x540D],  \<comment> \<open>toire-mei (toilet name)\<close>
     [0x8A2D, 0x7F6E, 0x30D5, 0x30ED, 0x30A2],  \<comment> \<open>setchi furoa (floor)\<close>
     [0x7D4C, 0x5EA6],  \<comment> \<open>keido (longitude)\<close>
     [0x7DEF, 0x5EA6],  \<comment> \<open>ido (latitude)\<close>
     [0x6027, 0x5225, 0x306E, 0x5206, 0x3051],  \<comment> \<open>seibetsu no wake (gender separation)\<close>
     [0x6238, 0x306E, 0x5F62, 0x5F0F],  \<comment> \<open>to no keishiki (door type)\<close>
     [0x8ECA, 0x6905, 0x5B50, 0x304C, 0x51FA, 0x5165, 0x308A, 0x3067, 0x304D, 0x308B, 0xFF08, 0x51FA, 0x5165, 0x53E3, 0x306E, 0x6709, 0x52B9, 0x5E45, 0x54E1, 0x38, 0x30, 0x63, 0x6D, 0x4EE5, 0x4E0A, 0xFF09],  \<comment> \<open>kurumaisu ga deiri dekiru (entrance at least 80cm wide)\<close>
     [0x8ECA, 0x6905, 0x5B50, 0x304C, 0x8EE2, 0x56DE, 0x3067, 0x304D, 0x308B, 0xFF08, 0x76F4, 0x5F84, 0x31, 0x35, 0x30, 0x63, 0x6D, 0x4EE5, 0x4E0A, 0x306E, 0x5186, 0x304C, 0x5185, 0x63A5, 0x3067, 0x304D, 0x308B, 0xFF09],  \<comment> \<open>kurumaisu ga tenkai dekiru (turning circle of 150cm)\<close>
     [0x4FBF, 0x5EA7, 0x306B, 0x80CC, 0x3082, 0x305F, 0x308C, 0x304C, 0x3042, 0x308B],  \<comment> \<open>benza ni semotare ga aru (seat backrest)\<close>
     [0x4FBF, 0x5EA7, 0x306B, 0x624B, 0x3059, 0x308A, 0x304C, 0x3042, 0x308B],  \<comment> \<open>benza ni tesuri ga aru (seat handrail)\<close>
     [0x30AA, 0x30B9, 0x30C8, 0x30E1, 0x30A4, 0x30C8, 0x7528, 0x8A2D, 0x5099, 0x304C, 0x3042, 0x308B],  \<comment> \<open>osutomeito-yo setsubi ga aru (ostomate equipment)\<close>
     [0x30AA, 0x30B9, 0x30C8, 0x30E1, 0x30A4, 0x30C8, 0x7528, 0x8A2D, 0x5099, 0x304C, 0x6E29, 0x6C34, 0x5BFE, 0x5FDC, 0x3057, 0x3066, 0x3044, 0x308B],  \<comment> \<open>osutomeito-yo setsubi ga onsui taio shite iru (hot water)\<close>
     [0x5927, 0x578B, 0x30D9, 0x30C3, 0x30C9, 0x3092, 0x5099, 0x3048, 0x3066, 0x3044, 0x308B],  \<comment> \<open>ogata beddo wo sonaete iru (large bed)\<close>
     [0x4E73, 0x5E7C, 0x5150, 0x7528, 0x304A, 0x3080, 0x3064, 0x4EA4, 0x63DB, 0x53F0, 0x7B49, 0x3092, 0x5099, 0x3048, 0x3066, 0x3044, 0x308B],  \<comment> \<open>nyuyoji-yo omutsu kokandai nado wo sonaete iru (changing table)\<close>
     [0x4E73, 0x5E7C, 0x5150, 0x7528, 0x6905, 0x5B50, 0x3092, 0x5099, 0x3048, 0x3066, 0x3044, 0x308B],  \<comment> \<open>nyuyoji-yo isu wo sonaete iru (infant chair)\<close>
     [0x6708, 0x66DC, 0x65E5],  \<comment> \<open>getsuyobi\<close>
     [0x706B, 0x66DC, 0x65E5],  \<comment> \<open>kayobi\<close>
     [0x6C34, 0x66DC, 0x65E5],  \<comment> \<open>suiyobi\<close>
     [0x6728, 0x66DC, 0x65E5],  \<comment> \<open>mokuyobi\<close>
     [0x91D1, 0x66DC, 0x65E5],  \<comment> \<open>kin-yobi\<close>
     [0x571F, 0x66DC, 0x65E5],  \<comment> \<open>doyobi\<close>
     [0x65E5, 0x66DC, 0x65E5],  \<comment> \<open>nichiyobi\<close>
     [0x795D, 0x65E5],  \<comment> \<open>shukujitsu\<close>
     [0x305D, 0x306E, 0x4ED6],  \<comment> \<open>sono-ta (other)\<close>
     [0x5199, 0x771F, 0x30C7, 0x30FC, 0x30BF, 0xFF08, 0x30C8, 0x30A4, 0x30EC, 0x306E, 0x5165, 0x308A, 0x53E3, 0xFF09],  \<comment> \<open>shashin data, toire no iriguchi (photo of the entrance)\<close>
     [0x5199, 0x771F, 0x30C7, 0x30FC, 0x30BF, 0xFF08, 0x30C8, 0x30A4, 0x30EC, 0x5185, 0xFF09],  \<comment> \<open>shashin data, toire-nai (photo of the interior)\<close>
     [0x5199, 0x771F, 0x30C7, 0x30FC, 0x30BF, 0xFF08, 0x30C8, 0x30A4, 0x30EC, 0x5185, 0xFF08, 0x5225, 0x89D2, 0x5EA6, 0xFF09, 0xFF09],  \<comment> \<open>shashin data, toire-nai, betsu kakudo (interior, another angle)\<close>
     [0x5099, 0x8003]  \<comment> \<open>biko (remarks)\<close>
  ]"

definition boolean_columns_builtin :: "ustr list" where
  "boolean_columns_builtin = [
     [0x8ECA, 0x6905, 0x5B50, 0x304C, 0x51FA, 0x5165, 0x308A, 0x3067, 0x304D, 0x308B, 0xFF08, 0x51FA, 0x5165, 0x53E3, 0x306E, 0x6709, 0x52B9, 0x5E45, 0x54E1, 0x38, 0x30, 0x63, 0x6D, 0x4EE5, 0x4E0A, 0xFF09],  \<comment> \<open>kurumaisu ga deiri dekiru (entrance at least 80cm wide)\<close>
     [0x8ECA, 0x6905, 0x5B50, 0x304C, 0x8EE2, 0x56DE, 0x3067, 0x304D, 0x308B, 0xFF08, 0x76F4, 0x5F84, 0x31, 0x35, 0x30, 0x63, 0x6D, 0x4EE5, 0x4E0A, 0x306E, 0x5186, 0x304C, 0x5185, 0x63A5, 0x3067, 0x304D, 0x308B, 0xFF09],  \<comment> \<open>kurumaisu ga tenkai dekiru (turning circle of 150cm)\<close>
     [0x4FBF, 0x5EA7, 0x306B, 0x80CC, 0x3082, 0x305F, 0x308C, 0x304C, 0x3042, 0x308B],  \<comment> \<open>benza ni semotare ga aru (seat backrest)\<close>
     [0x4FBF, 0x5EA7, 0x306B, 0x624B, 0x3059, 0x308A, 0x304C, 0x3042, 0x308B],  \<comment> \<open>benza ni tesuri ga aru (seat handrail)\<close>
     [0x30AA, 0x30B9, 0x30C8, 0x30E1, 0x30A4, 0x30C8, 0x7528, 0x8A2D, 0x5099, 0x304C, 0x3042, 0x308B],  \<comment> \<open>osutomeito-yo setsubi ga aru (ostomate equipment)\<close>
     [0x30AA, 0x30B9, 0x30C8, 0x30E1, 0x30A4, 0x30C8, 0x7528, 0x8A2D, 0x5099, 0x304C, 0x6E29, 0x6C34, 0x5BFE, 0x5FDC, 0x3057, 0x3066, 0x3044, 0x308B],  \<comment> \<open>osutomeito-yo setsubi ga onsui taio shite iru (hot water)\<close>
     [0x5927, 0x578B, 0x30D9, 0x30C3, 0x30C9, 0x3092, 0x5099, 0x3048, 0x3066, 0x3044, 0x308B],  \<comment> \<open>ogata beddo wo sonaete iru (large bed)\<close>
     [0x4E73, 0x5E7C, 0x5150, 0x7528, 0x304A, 0x3080, 0x3064, 0x4EA4, 0x63DB, 0x53F0, 0x7B49, 0x3092, 0x5099, 0x3048, 0x3066, 0x3044, 0x308B],  \<comment> \<open>nyuyoji-yo omutsu kokandai nado wo sonaete iru (changing table)\<close>
     [0x4E73, 0x5E7C, 0x5150, 0x7528, 0x6905, 0x5B50, 0x3092, 0x5099, 0x3048, 0x3066, 0x3044, 0x308B]  \<comment> \<open>nyuyoji-yo isu wo sonaete iru (infant chair)\<close>
  ]"

text \<open>
  \<open>transform_csv\<close>, on the rows of the input file: the header, an empty row, and one
  row for each input row whose facility name is not empty after \<open>strip\<close>. The rows
  written have the keys of \<open>target_columns\<close> only, so the writer cannot fail.
\<close>

definition target_row_builtin :: "row \<Rightarrow> row" where
  "target_row_builtin r =
     map (\<lambda>col. (col, let value = get_default r col []
                      in if col \<in> set boolean_columns_builtin
                         then convert_boolean_value_builtin value else value))
         target_columns"

definition transform_csv_builtin :: "row list \<Rightarrow> csv_file" where
  "transform_csv_builtin rs =
     Table target_columns
       (map (\<lambda>col. (col, [])) target_columns
        # map target_row_builtin
            (filter (\<lambda>r. strip (get_default r col_facility_name []) \<noteq> []) rs))"

subsection \<open>The transformer with pandas (csv\_transformer.py)\<close>

text \<open>The mapping from the source columns to the target columns, and the marker columns.\<close>

definition column_mapping :: "(ustr \<times> ustr) list" where
  "column_mapping = [
     ([0x65BD, 0x8A2D, 0x540D],
      ascii ''facility_name''),  \<comment> \<open>shisetsu-mei (facility name)\<close>
     ([0x90FD, 0x9053, 0x5E9C, 0x770C],
      ascii ''prefecture''),  \<comment> \<open>todofuken (prefecture)\<close>
     ([0x5E02, 0x533A, 0x753A, 0x6751, 0x30FB, 0x756A, 0x5730],
      ascii ''address''),  \<comment> \<open>shikuchoson banchi (municipality and street)\<close>
     ([0x30C8, 0x30A4, 0x30EC, 0x540D],
      ascii ''toilet_name''),  \<comment> \<open>toire-mei (toilet name)\<close>
     ([0x8A2D, 0x7F6E, 0x30D5, 0x30ED, 0x30A2],
      ascii ''floor''),  \<comment> \<open>setchi furoa (floor)\<close>
     ([0x7D4C, 0x5EA6],
      ascii ''longitude''),  \<comment> \<open>keido (longitude)\<close>
     ([0x7DEF, 0x5EA6],
      ascii ''latitude''),  \<comment> \<open>ido (latitude)\<close>
     ([0x6027, 0x5225, 0x306E, 0x5206, 0x3051],
      ascii ''gender''),  \<comment> \<open>seibetsu no wake (gender separation)\<close>
     ([0x6238, 0x306E, 0x5F62, 0x5F0F],
      ascii ''door_type''),  \<comment> \<open>to no keishiki (door type)\<close>
     ([0x8ECA, 0x6905, 0x5B50, 0x304C, 0x51FA, 0x5165, 0x308A, 0x3067, 0x304D, 0x308B, 0xFF08, 0x51FA, 0x5165, 0x53E3, 0x306E, 0x6709, 0x52B9, 0x5E45, 0x54E1, 0x38, 0x30, 0x63, 0x6D, 0x4EE5, 0x4E0A, 0xFF09],
      ascii ''wheelchair_accessible''),  \<comment> \<open>kurumaisu ga deiri dekiru (entrance at least 80cm wide)\<close>
     ([0x8ECA, 0x6905, 0x5B50, 0x304C, 0x8EE2, 0x56DE, 0x3067, 0x304D, 0x308B, 0xFF08, 0x76F4, 0x5F84, 0x31, 0x35, 0x30, 0x63, 0x6D, 0x4EE5, 0x4E0A, 0x306E, 0x5186, 0x304C, 0x5185, 0x63A5, 0x3067, 0x304D, 0x308B, 0xFF09],
      ascii ''wheelchair_turnaround''),  \<comment> \<open>kurumaisu ga tenkai dekiru (turning circle of 150cm)\<close>
     ([0x4FBF, 0x5EA7, 0x306B, 0x80CC, 0x3082, 0x305F, 0x308C, 0x304C, 0x3042, 0x308B],
      ascii ''seat_backrest''),  \<comment> \<open>benza ni semotare ga aru (seat backrest)\<close>
     ([0x4FBF, 0x5EA7, 0x306B, 0x624B, 0x3059, 0x308A, 0x304C, 0x3042, 0x308B],
      ascii ''seat_handrail''),  \<comment> \<open>benza ni tesuri ga aru (seat handrail)\<close>
     ([0x30AA, 0x30B9, 0x30C8, 0x30E1, 0x30A4, 0x30C8, 0x7528, 0x8A2D, 0x5099, 0x304C, 0x3042, 0x308B],
      ascii ''ostomy_equipment''),  \<comment> \<open>osutomeito-yo setsubi ga aru (ostomate equipment)\<close>
     ([0x30AA, 0x30B9, 0x30C8, 0x30E1, 0x30A4, 0x30C8, 0x7528, 0x8A2D, 0x5099, 0x304C, 0x6E29, 0x6C34, 0x5BFE, 0x5FDC, 0x3057, 0x3066, 0x3044, 0x308B],
      ascii ''ostomy_hot_water''),  \<comment> \<open>osutomeito-yo setsubi ga onsui taio shite iru (hot water)\<close>
     ([0x5927, 0x578B, 0x30D9, 0x30C3, 0x30C9, 0x3092, 0x5099, 0x3048, 0x3066, 0x3044, 0x308B],
      ascii ''large_bed''),  \<comment> \<open>ogata beddo wo sonaete iru (large bed)\<close>
     ([0x4E73, 0x5E7C, 0x5150, 0x7528, 0x304A, 0x3080, 0x3064, 0x4EA4, 0x63DB, 0x53F0, 0x7B49, 0x3092, 0x5099, 0x3048, 0x3066, 0x3044, 0x308B],
      ascii ''baby_changing''),  \<comment> \<open>nyuyoji-yo omutsu kokandai nado wo sonaete iru (changing table)\<close>
     ([0x4E73, 0x5E7C, 0x5150, 0x7528, 0x6905, 0x5B50, 0x3092, 0x5099, 0x3048, 0x3066, 0x3044, 0x308B],
      ascii ''baby_chair''),  \<comment> \<open>nyuyoji-yo isu wo sonaete iru (infant chair)\<close>
     ([0x6708, 0x66DC, 0x65E5],
      ascii ''monday''),  \<comment> \<open>getsuyobi\<close>
     ([0x706B, 0x66DC, 0x65E5],
      ascii ''tuesday''),  \<comment> \<open>kayobi\<close>
     ([0x6C34, 0x66DC, 0x65E5],
      ascii ''wednesday''),  \<comment> \<open>suiyobi\<close>
     ([0x6728, 0x66DC, 0x65E5],
      ascii ''thursday''),  \<comment> \<open>mokuyobi\<close>
     ([0x91D1, 0x66DC, 0x65E5],
      ascii ''friday''),  \<comment> \<open>kin-yobi\<close>
     ([0x571F, 0x66DC, 0x65E5],
      ascii ''saturday''),  \<comment> \<open>doyobi\<close>
     ([0x65E5, 0x66DC, 0x65E5],
      ascii ''sunday''),  \<comment> \<open>nichiyobi\<close>
     ([0x795D, 0x65E5],
      ascii ''holiday''),  \<comment> \<open>shukujitsu\<close>
     ([0x305D, 0x306E, 0x4ED6],
      ascii ''other''),  \<comment> \<open>sono-ta (other)\<close>
     ([0x5199, 0x771F, 0x30C7, 0x30FC, 0x30BF, 0xFF08, 0x30C8, 0x30A4, 0x30EC, 0x306E, 0x5165, 0x308A, 0x53E3, 0xFF09],
      ascii ''photo_entrance''),  \<comment> \<open>shashin data, toire no iriguchi (photo of the entrance)\<close>
     ([0x5199, 0x771F, 0x30C7, 0x30FC, 0x30BF, 0xFF08, 0x30C8, 0x30A4, 0x30EC, 0x5185, 0xFF09],
      ascii ''photo_interior''),  \<comment> \<open>shashin data, toire-nai (photo of the interior)\<close>
     ([0x5199, 0x771F, 0x30C7, 0x30FC, 0x30BF, 0xFF08, 0x30C8, 0x30A4, 0x30EC, 0x5185, 0xFF08, 0x5225, 0x89D2, 0x5EA6, 0xFF09, 0xFF09],
      ascii ''photo_interior2''),  \<comment> \<open>shashin data, toire-nai, betsu kakudo (interior, another angle)\<close>
     ([0x5099, 0x8003],
      ascii ''remarks'')  \<comment> \<open>biko (remarks)\<close>
  ]"

definition boolean_columns :: "ustr list" where
  "boolean_columns = [ascii ''wheelchair_accessible'',
     ascii ''wheelchair_turnaround'',
     ascii ''seat_backrest'',
     ascii ''seat_handrail'',
     ascii ''ostomy_equipment'',
     ascii ''ostomy_hot_water'',
     ascii ''large_bed'',
     ascii ''baby_changing'',
     ascii ''baby_chair'']"


text \<open>
  A cell of a data frame read by \<open>pandas.read_csv\<close> is NaN for an empty cell and the text
  of the cell otherwise. The library is not code of the scripts; its other markers of
  missing values and its inference of numeric columns are not modelled.
\<close>

datatype pd_value = NaN | Str ustr

definition pd_read_cell :: "ustr \<Rightarrow> pd_value" where
  "pd_read_cell s = (if s = [] then NaN else Str s)"

text \<open>
  \<open>transform_csv\<close>, on the columns and rows of the input file. \<open>df['...']\<close> raises
  KeyError when the facility-name column is absent; the filter keeps the rows whose
  facility name is neither NaN nor the empty text; a source column that is absent gives
  empty cells; \<open>convert_boolean_value\<close> is applied to the cells of the marker columns (a
  NaN equals no marker); \<open>fillna('')\<close> turns the remaining NaN into empty cells; an empty
  row is put first.
\<close>

definition pandas_keeps :: "row \<Rightarrow> bool" where
  "pandas_keeps r =
     (pd_read_cell (get_default r col_facility_name []) \<noteq> NaN
      \<and> pd_read_cell (get_default r col_facility_name []) \<noteq> Str [])"

definition target_cell_pandas :: "ustr list \<Rightarrow> row \<Rightarrow> ustr \<Rightarrow> ustr \<Rightarrow> ustr" where
  "target_cell_pandas columns r source_col target_col =
     (let v = (if source_col \<in> set columns then pd_read_cell (get_default r source_col [])
               else Str []);
          v' = (if target_col \<in> set boolean_columns
                then (case v of NaN \<Rightarrow> Str str_FALSE | Str s \<Rightarrow> Str (convert_boolean_value s))
                else v)
      in case v' of NaN \<Rightarrow> [] | Str s \<Rightarrow> s)"

definition transform_csv_pandas :: "ustr list \<Rightarrow> row list \<Rightarrow> pyerr + csv_file" where
  "transform_csv_pandas columns rs =
     (if col_facility_name \<notin> set columns then Inl KeyError
      else Inr (Table (map snd column_mapping)
                  (map (\<lambda>(source_col, target_col). (target_col, [])) column_mapping
                   # map (\<lambda>r. map (\<lambda>(source_col, target_col).
                                      (target_col, target_cell_pandas columns r source_col target_col))
                                  column_mapping)
                         (filter pandas_keeps rs))))"

subsection \<open>The equivalence of the two transformers, as the specification words it\<close>

text \<open>
  Following the words of the specification: two output rows agree when, for each pair
  of the mapping, the cell under the target name in the pandas row is the cell under
  the source name in the other row; the two transformers agree on an input when the
  pandas one succeeds and the two outputs have the same number of rows, agreeing row by
  row.
\<close>

definition rows_agree :: "row \<Rightarrow> row \<Rightarrow> bool" where
  "rows_agree pandas_row builtin_row =
     list_all (\<lambda>(source_col, target_col). map_of pandas_row target_col = map_of builtin_row source_col)
              column_mapping"

definition transformers_agree :: "ustr list \<Rightarrow> row list \<Rightarrow> bool" where
  "transformers_agree columns rs =
     (case transform_csv_pandas columns rs of
        Inl e \<Rightarrow> False
      | Inr f \<Rightarrow> list_all2 rows_agree (records f) (records (transform_csv_builtin rs)))"

section \<open>Pin formatter (csv\_to\_pin\_format.py)\<close>

text \<open>
  The five feature columns with the label each contributes, in the order of the script:
  wheelchair access (kurumaisu taio), ostomate equipment (osutomeito taio), large bed
  (ogata beddo), nappy changing table (omutsu kokandai) and infant chair (nyuyoji-yo isu).
\<close>

definition col_wheelchair :: ustr where
  "col_wheelchair = [0x8ECA, 0x6905, 0x5B50, 0x304C, 0x51FA, 0x5165, 0x308A, 0x3067, 0x304D, 0x308B, 0xFF08, 0x51FA, 0x5165, 0x53E3, 0x306E, 0x6709, 0x52B9, 0x5E45, 0x54E1, 0x38, 0x30, 0x63, 0x6D, 0x4EE5, 0x4E0A, 0xFF09]"  \<comment> \<open>kurumaisu ga deiri dekiru (entrance at least 80cm wide)\<close>

definition label_wheelchair :: ustr where
  "label_wheelchair = [0x8ECA, 0x6905, 0x5B50, 0x5BFE, 0x5FDC]"  \<comment> \<open>kurumaisu taio\<close>

definition col_ostomate :: ustr where
  "col_ostomate = [0x30AA, 0x30B9, 0x30C8, 0x30E1, 0x30A4, 0x30C8, 0x7528, 0x8A2D, 0x5099, 0x304C, 0x3042, 0x308B]"  \<comment> \<open>osutomeito-yo setsubi ga aru\<close>

definition label_ostomate :: ustr where
  "label_ostomate = [0x30AA, 0x30B9, 0x30C8, 0x30E1, 0x30A4, 0x30C8, 0x5BFE, 0x5FDC]"  \<comment> \<open>osutomeito taio\<close>

definition col_large_bed :: ustr where
  "col_large_bed = [0x5927, 0x578B, 0x30D9, 0x30C3, 0x30C9, 0x3092, 0x5099, 0x3048, 0x3066, 0x3044, 0x308B]"  \<comment> \<open>ogata beddo wo sonaete iru\<close>

definition label_large_bed :: ustr where
  "label_large_bed = [0x5927, 0x578B, 0x30D9, 0x30C3, 0x30C9]"  \<comment> \<open>ogata beddo\<close>

definition col_changing_table :: ustr where
  "col_changing_table = [0x4E73, 0x5E7C, 0x5150, 0x7528, 0x304A, 0x3080, 0x3064, 0x4EA4, 0x63DB, 0x53F0, 0x7B49, 0x3092, 0x5099, 0x3048, 0x3066, 0x3044, 0x308B]"  \<comment> \<open>nyuyoji-yo omutsu kokandai nado wo sonaete iru\<close>

definition label_changing_table :: ustr where
  "label_changing_table = [0x304A, 0x3080, 0x3064, 0x4EA4, 0x63DB, 0x53F0]"  \<comment> \<open>omutsu kokandai\<close>

definition col_baby_chair :: ustr where
  "col_baby_chair = [0x4E73, 0x5E7C, 0x5150, 0x7528, 0x6905, 0x5B50, 0x3092, 0x5099, 0x3048, 0x3066, 0x3044, 0x308B]"  \<comment> \<open>nyuyoji-yo isu wo sonaete iru\<close>

definition label_baby_chair :: ustr where
  "label_baby_chair = [0x4E73, 0x5E7C, 0x5150, 0x7528, 0x6905, 0x5B50]"  \<comment> \<open>nyuyoji-yo isu\<close>

definition col_door_type :: ustr where
  "col_door_type = [0x6238, 0x306E, 0x5F62, 0x5F0F]"  \<comment> \<open>to no keishiki (door type)\<close>

definition col_remarks :: ustr where
  "col_remarks = [0x5099, 0x8003]"  \<comment> \<open>biko (remarks)\<close>

definition days :: "ustr list" where
  "days = [
     [0x6708, 0x66DC, 0x65E5],  \<comment> \<open>getsuyobi (Monday)\<close>
     [0x706B, 0x66DC, 0x65E5],  \<comment> \<open>kayobi (Tuesday)\<close>
     [0x6C34, 0x66DC, 0x65E5],  \<comment> \<open>suiyobi (Wednesday)\<close>
     [0x6728, 0x66DC, 0x65E5],  \<comment> \<open>mokuyobi (Thursday)\<close>
     [0x91D1, 0x66DC, 0x65E5],  \<comment> \<open>kin-yobi (Friday)\<close>
     [0x571F, 0x66DC, 0x65E5],  \<comment> \<open>doyobi (Saturday)\<close>
     [0x65E5, 0x66DC, 0x65E5],  \<comment> \<open>nichiyobi (Sunday)\<close>
     [0x795D, 0x65E5]  \<comment> \<open>shukujitsu (holiday)\<close>
  ]"

text \<open>The prefixes of the four sections and the separators.\<close>

definition prefix_features :: ustr where
  "prefix_features = [0x8A2D, 0x5099, 0x3A, 0x20]"  \<comment> \<open>setsubi (equipment), colon, space\<close>

definition prefix_door :: ustr where
  "prefix_door = [0x6249, 0x3A, 0x20]"  \<comment> \<open>tobira (door), colon, space\<close>

definition prefix_hours :: ustr where
  "prefix_hours = [0x55B6, 0x696D, 0x6642, 0x9593, 0x3A, 0x20]"  \<comment> \<open>eigyo jikan (opening hours), colon, space\<close>

definition prefix_remarks :: ustr where
  "prefix_remarks = [0x5099, 0x8003, 0x3A, 0x20]"  \<comment> \<open>biko (remarks), colon, space\<close>

definition sep_comma :: ustr where
  "sep_comma = [0x2C, 0x20]"  \<comment> \<open>comma, space\<close>

definition sep_colon :: ustr where
  "sep_colon = [0x3A, 0x20]"  \<comment> \<open>colon, space\<close>

definition sep_bar :: ustr where
  "sep_bar = [0x20, 0x7C, 0x20]"  \<comment> \<open>space, bar, space\<close>


text \<open>
  \<open>create_facility_note\<close>. \<open>feature_if\<close> is one test of the form
  \<open>if row.get(col) == 'TRUE': features.append(label)\<close>; \<open>collect_hours\<close> is the loop over
  the days.
\<close>

definition feature_if :: "row \<Rightarrow> ustr \<Rightarrow> ustr \<Rightarrow> ustr list" where
  "feature_if r col label = (if map_of r col = Some str_TRUE then [label] else [])"

fun collect_hours :: "row \<Rightarrow> ustr list \<Rightarrow> ustr list" where
  "collect_hours r [] = []"
| "collect_hours r (day # rest) =
     (let hour = strip (get_default r day [])
      in (if hour \<noteq> [] then [day @ sep_colon @ hour] else []) @ collect_hours r rest)"

definition create_facility_note :: "row \<Rightarrow> ustr" where
  "create_facility_note r =
     (let features = feature_if r col_wheelchair label_wheelchair
                   @ feature_if r col_ostomate label_ostomate
                   @ feature_if r col_large_bed label_large_bed
                   @ feature_if r col_changing_table label_changing_table
                   @ feature_if r col_baby_chair label_baby_chair;
          note_parts1 = (if features \<noteq> [] then [prefix_features @ join sep_comma features] else []);
          door_type = strip (get_default r col_door_type []);
          note_parts2 = note_parts1 @ (if door_type \<noteq> [] then [prefix_door @ door_type] else []);
          hours = collect_hours r days;
          note_parts3 = note_parts2
                      @ (if hours \<noteq> [] then [prefix_hours @ join sep_comma (take 3 hours)] else []);
          special_note = strip (get_default r col_remarks []);
          note_parts4 = note_parts3
                      @ (if special_note \<noteq> [] then [prefix_remarks @ special_note] else [])
      in join sep_bar note_parts4)"

subsection \<open>The note as the specification words it\<close>

text \<open>
  Following the words of the specification, with the reading of a cell left open:
  \<open>cell\<close> is how the text of a cell is read, the identity for the cell as it stands and
  \<open>strip\<close> for the cell without surrounding white space. The sections are the labels of
  the feature columns equal to TRUE, the door type, the first three entries among the
  days with hours, and the remarks; a section without data is left out.
\<close>

definition feature_columns :: "(ustr \<times> ustr) list" where
  "feature_columns = [(col_wheelchair, label_wheelchair), (col_ostomate, label_ostomate),
     (col_large_bed, label_large_bed), (col_changing_table, label_changing_table),
     (col_baby_chair, label_baby_chair)]"

definition feature_labels :: "row \<Rightarrow> ustr list" where
  "feature_labels r = map snd (filter (\<lambda>(col, label). map_of r col = Some str_TRUE) feature_columns)"

definition hour_entries :: "(ustr \<Rightarrow> ustr) \<Rightarrow> row \<Rightarrow> ustr list" where
  "hour_entries cell r =
     map (\<lambda>day. day @ sep_colon @ cell (get_default r day []))
         (filter (\<lambda>day. cell (get_default r day []) \<noteq> []) days)"

definition note_sections :: "(ustr \<Rightarrow> ustr) \<Rightarrow> row \<Rightarrow> ustr list" where
  "note_sections cell r =
     (if feature_labels r = [] then [] else [prefix_features @ join sep_comma (feature_labels r)])
   @ (if cell (get_default r col_door_type []) = [] then []
      else [prefix_door @ cell (get_default r col_door_type [])])
   @ (if hour_entries cell r = [] then []
      else [prefix_hours @ join sep_comma (take 3 (hour_entries cell r))])
   @ (if cell (get_default r col_remarks []) = [] then []
      else [prefix_remarks @ cell (get_default r col_remarks [])])"

section \<open>Ward splitter (split\_csv\_by\_ward.py)\<close>



definition str_address :: ustr where
  "str_address = ascii ''address''"






section \<open>Region splitter (split\_tama\_data.py)\<close>

text \<open>
  The lists of the classifier, in the order of the script: the 23 wards (written inline
  in \<open>extract_area_from_address\<close>), the cities of the Tama area, the towns of Nishitama
  and the islands.
\<close>

definition wards_23ku :: "ustr list" where
  "wards_23ku = [
     [0x5343, 0x4EE3, 0x7530, 0x533A],  \<comment> \<open>Chiyoda-ku\<close>
     [0x4E2D, 0x592E, 0x533A],  \<comment> \<open>Chuo-ku\<close>
     [0x6E2F, 0x533A],  \<comment> \<open>Minato-ku\<close>
     [0x65B0, 0x5BBF, 0x533A],  \<comment> \<open>Shinjuku-ku\<close>
     [0x6587, 0x4EAC, 0x533A],  \<comment> \<open>Bunkyo-ku\<close>
     [0x53F0, 0x6771, 0x533A],  \<comment> \<open>Taito-ku\<close>
     [0x58A8, 0x7530, 0x533A],  \<comment> \<open>Sumida-ku\<close>
     [0x6C5F, 0x6771, 0x533A],  \<comment> \<open>Koto-ku\<close>
     [0x54C1, 0x5DDD, 0x533A],  \<comment> \<open>Shinagawa-ku\<close>
     [0x76EE, 0x9ED2, 0x533A],  \<comment> \<open>Meguro-ku\<close>
     [0x5927, 0x7530, 0x533A],  \<comment> \<open>Ota-ku\<close>
     [0x4E16, 0x7530, 0x8C37, 0x533A],  \<comment> \<open>Setagaya-ku\<close>
     [0x6E0B, 0x8C37, 0x533A],  \<comment> \<open>Shibuya-ku\<close>
     [0x4E2D, 0x91CE, 0x533A],  \<comment> \<open>Nakano-ku\<close>
     [0x6749, 0x4E26, 0x533A],  \<comment> \<open>Suginami-ku\<close>
     [0x8C4A, 0x5CF6, 0x533A],  \<comment> \<open>Toshima-ku\<close>
     [0x5317, 0x533A],  \<comment> \<open>Kita-ku\<close>
     [0x8352, 0x5DDD, 0x533A],  \<comment> \<open>Arakawa-ku\<close>
     [0x677F, 0x6A4B, 0x533A],  \<comment> \<open>Itabashi-ku\<close>
     [0x7DF4, 0x99AC, 0x533A],  \<comment> \<open>Nerima-ku\<close>
     [0x8DB3, 0x7ACB, 0x533A],  \<comment> \<open>Adachi-ku\<close>
     [0x845B, 0x98FE, 0x533A],  \<comment> \<open>Katsushika-ku\<close>
     [0x6C5F, 0x6238, 0x5DDD, 0x533A]  \<comment> \<open>Edogawa-ku\<close>
  ]"

definition TAMA_CITIES :: "ustr list" where
  "TAMA_CITIES = [
     [0x516B, 0x738B, 0x5B50, 0x5E02],  \<comment> \<open>Hachioji-shi\<close>
     [0x7ACB, 0x5DDD, 0x5E02],  \<comment> \<open>Tachikawa-shi\<close>
     [0x6B66, 0x8535, 0x91CE, 0x5E02],  \<comment> \<open>Musashino-shi\<close>
     [0x4E09, 0x9DF9, 0x5E02],  \<comment> \<open>Mitaka-shi\<close>
     [0x9752, 0x6885, 0x5E02],  \<comment> \<open>Ome-shi\<close>
     [0x5E9C, 0x4E2D, 0x5E02],  \<comment> \<open>Fuchu-shi\<close>
     [0x662D, 0x5CF6, 0x5E02],  \<comment> \<open>Akishima-shi\<close>
     [0x8ABF, 0x5E03, 0x5E02],  \<comment> \<open>Chofu-shi\<close>
     [0x753A, 0x7530, 0x5E02],  \<comment> \<open>Machida-shi\<close>
     [0x5C0F, 0x91D1, 0x4E95, 0x5E02],  \<comment> \<open>Koganei-shi\<close>
     [0x5C0F, 0x5E73, 0x5E02],  \<comment> \<open>Kodaira-shi\<close>
     [0x65E5, 0x91CE, 0x5E02],  \<comment> \<open>Hino-shi\<close>
     [0x6771, 0x6751, 0x5C71, 0x5E02],  \<comment> \<open>Higashimurayama-shi\<close>
     [0x56FD, 0x5206, 0x5BFA, 0x5E02],  \<comment> \<open>Kokubunji-shi\<close>
     [0x56FD, 0x7ACB, 0x5E02],  \<comment> \<open>Kunitachi-shi\<close>
     [0x798F, 0x751F, 0x5E02],  \<comment> \<open>Fussa-shi\<close>
     [0x72DB, 0x6C5F, 0x5E02],  \<comment> \<open>Komae-shi\<close>
     [0x6771, 0x5927, 0x548C, 0x5E02],  \<comment> \<open>Higashiyamato-shi\<close>
     [0x6E05, 0x702C, 0x5E02],  \<comment> \<open>Kiyose-shi\<close>
     [0x6771, 0x4E45, 0x7559, 0x7C73, 0x5E02],  \<comment> \<open>Higashikurume-shi\<close>
     [0x6B66, 0x8535, 0x6751, 0x5C71, 0x5E02],  \<comment> \<open>Musashimurayama-shi\<close>
     [0x591A, 0x6469, 0x5E02],  \<comment> \<open>Tama-shi\<close>
     [0x7A32, 0x57CE, 0x5E02],  \<comment> \<open>Inagi-shi\<close>
     [0x7FBD, 0x6751, 0x5E02],  \<comment> \<open>Hamura-shi\<close>
     [0x3042, 0x304D, 0x308B, 0x91CE, 0x5E02],  \<comment> \<open>Akiruno-shi\<close>
     [0x897F, 0x6771, 0x4EAC, 0x5E02]  \<comment> \<open>Nishitokyo-shi\<close>
  ]"

definition NISHI_TAMA_GUN :: "ustr list" where
  "NISHI_TAMA_GUN = [
     [0x745E, 0x7A42, 0x753A],  \<comment> \<open>Mizuho-machi\<close>
     [0x65E5, 0x306E, 0x51FA, 0x753A],  \<comment> \<open>Hinode-machi\<close>
     [0x6A9C, 0x539F, 0x6751],  \<comment> \<open>Hinohara-mura\<close>
     [0x5965, 0x591A, 0x6469, 0x753A]  \<comment> \<open>Okutama-machi\<close>
  ]"

definition ISLAND_AREAS :: "ustr list" where
  "ISLAND_AREAS = [
     [0x5927, 0x5CF6, 0x753A],  \<comment> \<open>Oshima-machi\<close>
     [0x5229, 0x5CF6, 0x6751],  \<comment> \<open>Toshima-mura\<close>
     [0x65B0, 0x5CF6, 0x6751],  \<comment> \<open>Niijima-mura\<close>
     [0x795E, 0x6D25, 0x5CF6, 0x6751],  \<comment> \<open>Kozushima-mura\<close>
     [0x4E09, 0x5B85, 0x6751],  \<comment> \<open>Miyake-mura\<close>
     [0x5FA1, 0x8535, 0x5CF6, 0x6751],  \<comment> \<open>Mikurajima-mura\<close>
     [0x516B, 0x4E08, 0x753A],  \<comment> \<open>Hachijo-machi\<close>
     [0x9752, 0x30F6, 0x5CF6, 0x6751],  \<comment> \<open>Aogashima-mura\<close>
     [0x5C0F, 0x7B20, 0x539F, 0x6751]  \<comment> \<open>Ogasawara-mura\<close>
  ]"

definition str_sonota :: ustr where
  "str_sonota = [0x305D, 0x306E, 0x4ED6]"  \<comment> \<open>sono-ta (other)\<close>

text \<open>\<open>extract_area_from_address\<close>: four loops in sequence, each returning at its first match.\<close>

definition extract_area_from_address :: "ustr \<Rightarrow> ustr \<times> ustr" where
  "extract_area_from_address address =
     (case find (\<lambda>ward. str_in ward address) wards_23ku of
        Some ward \<Rightarrow> (ascii ''23ku'', ward)
      | None \<Rightarrow>
     (case find (\<lambda>city. str_in city address) TAMA_CITIES of
        Some city \<Rightarrow> (ascii ''tama_city'', city)
      | None \<Rightarrow>
     (case find (\<lambda>town. str_in town address) NISHI_TAMA_GUN of
        Some town \<Rightarrow> (ascii ''nishi_tama'', town)
      | None \<Rightarrow>
     (case find (\<lambda>island. str_in island address) ISLAND_AREAS of
        Some island \<Rightarrow> (ascii ''island'', island)
      | None \<Rightarrow> (ascii ''other'', str_sonota)))))"

text \<open>
  Following the words of the specification: \<open>first_in names address n\<close> says that \<open>n\<close> is
  the first entry of \<open>names\<close>, in list order, that occurs in the address.
\<close>

definition first_in :: "ustr list \<Rightarrow> ustr \<Rightarrow> ustr \<Rightarrow> bool" where
  "first_in names address n =
     (\<exists>i < length names. names ! i = n \<and> str_in n address
        \<and> (\<forall>j < i. \<not> str_in (names ! j) address))"

subsection \<open>The aggregated files\<close>

text \<open>The eight major cities of \<open>create_tama_integrated_files\<close>.\<close>

definition major_cities :: "ustr list" where
  "major_cities = [
     [0x516B, 0x738B, 0x5B50, 0x5E02],  \<comment> \<open>Hachioji-shi\<close>
     [0x7ACB, 0x5DDD, 0x5E02],  \<comment> \<open>Tachikawa-shi\<close>
     [0x6B66, 0x8535, 0x91CE, 0x5E02],  \<comment> \<open>Musashino-shi\<close>
     [0x4E09, 0x9DF9, 0x5E02],  \<comment> \<open>Mitaka-shi\<close>
     [0x5E9C, 0x4E2D, 0x5E02],  \<comment> \<open>Fuchu-shi\<close>
     [0x8ABF, 0x5E03, 0x5E02],  \<comment> \<open>Chofu-shi\<close>
     [0x753A, 0x7530, 0x5E02],  \<comment> \<open>Machida-shi\<close>
     [0x5C0F, 0x91D1, 0x4E95, 0x5E02]  \<comment> \<open>Koganei-shi\<close>
  ]"

text \<open>
  A directory is the list of its files, name and content, in the order of
  \<open>os.listdir\<close>. \<open>read_csv\<close> is \<open>csv.DictReader\<close> on a file: the field names (\<open>None\<close> for a
  file without content) and the rows. \<open>truthy\<close> is the truth value of \<open>headers\<close>.
\<close>

definition read_csv :: "csv_file \<Rightarrow> ustr list option \<times> row list" where
  "read_csv f = (case f of Empty_file \<Rightarrow> (None, []) | Table h rs \<Rightarrow> (Some h, rs))"

definition truthy :: "ustr list option \<Rightarrow> bool" where
  "truthy headers = (case headers of None \<Rightarrow> False | Some h \<Rightarrow> h \<noteq> [])"

text \<open>
  The loop over the major cities (a city without a file is skipped) and the loop over
  the listing of a directory (a name that does not end in .csv is skipped). The state
  is \<open>headers\<close>, set by the first file read while it is \<open>None\<close>, and the data read so far.
\<close>

fun read_major_cities ::
  "(ustr \<times> csv_file) list \<Rightarrow> ustr list \<Rightarrow> ustr list option \<times> row list
     \<Rightarrow> ustr list option \<times> row list" where
  "read_major_cities tama_dir [] (headers, integrated_tama_data) = (headers, integrated_tama_data)"
| "read_major_cities tama_dir (city # cities) (headers, integrated_tama_data) =
     (case map_of tama_dir (city @ ascii ''.csv'') of
        None \<Rightarrow> read_major_cities tama_dir cities (headers, integrated_tama_data)
      | Some f \<Rightarrow>
          read_major_cities tama_dir cities
            (if headers = None then fst (read_csv f) else headers,
             integrated_tama_data @ snd (read_csv f)))"

fun read_listed ::
  "(ustr \<times> csv_file) list \<Rightarrow> ustr list option \<times> row list \<Rightarrow> ustr list option \<times> row list" where
  "read_listed [] (headers, area_data) = (headers, area_data)"
| "read_listed ((name, f) # listing) (headers, area_data) =
     (if suffix (ascii ''.csv'') name
      then read_listed listing
             (if headers = None then fst (read_csv f) else headers, area_data @ snd (read_csv f))
      else read_listed listing (headers, area_data))"

text \<open>\<open>if data and headers:\<close> followed by the writing of the file.\<close>

definition write_if_data ::
  "ustr \<Rightarrow> ustr list option \<Rightarrow> row list \<Rightarrow> pyerr + (ustr \<times> csv_file) list" where
  "write_if_data output_file headers area_data =
     (if area_data \<noteq> [] \<and> truthy headers
      then (case write_csv (the headers) area_data of
              Inl e \<Rightarrow> Inl e
            | Inr f \<Rightarrow> Inr [(output_file, f)])
      else Inr [])"

definition lightweight_path :: "ustr \<Rightarrow> ustr \<Rightarrow> ustr" where
  "lightweight_path base_output_dir name =
     path_join (path_join base_output_dir (ascii ''lightweight'')) name"

text \<open>
  \<open>create_tama_integrated_files\<close>, given the three directories: the files written, in
  order. \<open>headers\<close> is carried from one part to the next.
\<close>

definition create_tama_integrated_files ::
  "ustr \<Rightarrow> (ustr \<times> csv_file) list \<Rightarrow> (ustr \<times> csv_file) list \<Rightarrow> (ustr \<times> csv_file) list
     \<Rightarrow> pyerr + (ustr \<times> csv_file) list" where
  "create_tama_integrated_files base_output_dir tama_dir island_dir nishi_tama_dir =
     (let (headers1, integrated_tama_data) = read_major_cities tama_dir major_cities (None, [])
      in case write_if_data (lightweight_path base_output_dir (ascii ''tama_major_cities.csv''))
                headers1 integrated_tama_data of
           Inl e \<Rightarrow> Inl e
         | Inr written1 \<Rightarrow>
     (let (headers2, island_data) = read_listed island_dir (headers1, [])
      in case write_if_data (lightweight_path base_output_dir (ascii ''islands_integrated.csv''))
                headers2 island_data of
           Inl e \<Rightarrow> Inl e
         | Inr written2 \<Rightarrow>
     (let (headers3, nishi_tama_data) = read_listed nishi_tama_dir (headers2, [])
      in case write_if_data (lightweight_path base_output_dir (ascii ''nishi_tama_integrated.csv''))
                headers3 nishi_tama_data of
           Inl e \<Rightarrow> Inl e
         | Inr written3 \<Rightarrow> Inr (written1 @ written2 @ written3))))"

text \<open>
  Following the words of the specification: the source data of an aggregated file is
  the concatenation of the rows of the files it is built from.
\<close>

definition major_data :: "(ustr \<times> csv_file) list \<Rightarrow> row list" where
  "major_data tama_dir =
     concat (map (\<lambda>city. case map_of tama_dir (city @ ascii ''.csv'') of
                            None \<Rightarrow> []
                          | Some f \<Rightarrow> snd (read_csv f)) major_cities)"

definition listed_data :: "(ustr \<times> csv_file) list \<Rightarrow> row list" where
  "listed_data listing =
     concat (map (\<lambda>(name, f). snd (read_csv f))
                 (filter (\<lambda>(name, f). suffix (ascii ''.csv'') name) listing))"

text \<open>
  A directory is uniform for a header when each of its files has that header line and
  rows with only keys of the header, as the files that the splitter writes from one
  input file are.
\<close>

definition uniform_dir :: "ustr list \<Rightarrow> (ustr \<times> csv_file) list \<Rightarrow> bool" where
  "uniform_dir h listing =
     list_all (\<lambda>(name, f). case f of
                  Empty_file \<Rightarrow> False
                | Table h' rs \<Rightarrow> h' = h \<and> list_all (\<lambda>r. list_all (\<lambda>k. k \<in> set h) (row_keys r)) rs)
              listing"

section \<open>Lightweight and priority extractor (create\_lightweight\_csv.py)\<close>

text \<open>The 12 inner wards, and the keywords of the priority rules.\<close>

definition YAMANOTE_INNER_WARDS :: "ustr list" where
  "YAMANOTE_INNER_WARDS = [
     [0x5343, 0x4EE3, 0x7530, 0x533A],  \<comment> \<open>Chiyoda-ku\<close>
     [0x4E2D, 0x592E, 0x533A],  \<comment> \<open>Chuo-ku\<close>
     [0x6E2F, 0x533A],  \<comment> \<open>Minato-ku\<close>
     [0x65B0, 0x5BBF, 0x533A],  \<comment> \<open>Shinjuku-ku\<close>
     [0x6587, 0x4EAC, 0x533A],  \<comment> \<open>Bunkyo-ku\<close>
     [0x53F0, 0x6771, 0x533A],  \<comment> \<open>Taito-ku\<close>
     [0x58A8, 0x7530, 0x533A],  \<comment> \<open>Sumida-ku\<close>
     [0x6C5F, 0x6771, 0x533A],  \<comment> \<open>Koto-ku\<close>
     [0x54C1, 0x5DDD, 0x533A],  \<comment> \<open>Shinagawa-ku\<close>
     [0x76EE, 0x9ED2, 0x533A],  \<comment> \<open>Meguro-ku\<close>
     [0x6E0B, 0x8C37, 0x533A],  \<comment> \<open>Shibuya-ku\<close>
     [0x8C4A, 0x5CF6, 0x533A]  \<comment> \<open>Toshima-ku\<close>
  ]"

definition str_name :: ustr where
  "str_name = ascii ''name''"

definition EKI :: ustr where
  "EKI = [0x99C5]"  \<comment> \<open>eki (station)\<close>

definition str_Station :: ustr where
  "str_Station = ascii ''Station''"

definition public_keywords :: "ustr list" where
  "public_keywords = [
     [0x5E81, 0x820E],  \<comment> \<open>chosha (government office)\<close>
     [0x56F3, 0x66F8, 0x9928],  \<comment> \<open>toshokan (library)\<close>
     [0x75C5, 0x9662],  \<comment> \<open>byoin (hospital)\<close>
     [0x516C, 0x5712],  \<comment> \<open>koen (park)\<close>
     [0x6587, 0x5316]  \<comment> \<open>bunka (culture)\<close>
  ]"

definition landmark_keywords :: "ustr list" where
  "landmark_keywords = [
     [0x6771, 0x4EAC],  \<comment> \<open>Tokyo\<close>
     [0x65B0, 0x5BBF],  \<comment> \<open>Shinjuku\<close>
     [0x6E0B, 0x8C37],  \<comment> \<open>Shibuya\<close>
     [0x6C60, 0x888B],  \<comment> \<open>Ikebukuro\<close>
     [0x4E0A, 0x91CE],  \<comment> \<open>Ueno\<close>
     [0x54C1, 0x5DDD]  \<comment> \<open>Shinagawa\<close>
  ]"

subsection \<open>The priority filter\<close>

text \<open>
  The loop over the inner wards adds 50 at the first ward found in the address and
  leaves the loop (\<open>break\<close>).
\<close>

fun add_ward_bonus :: "ustr list \<Rightarrow> ustr \<Rightarrow> int \<Rightarrow> int" where
  "add_ward_bonus [] address priority_score = priority_score"
| "add_ward_bonus (ward # wards) address priority_score =
     (if str_in ward address then priority_score + 50
      else add_ward_bonus wards address priority_score)"

text \<open>
  The score of one row (the body of the loop of \<open>create_priority_csv\<close>, before the
  test \<open>priority_score > 0\<close>). \<open>row['name']\<close> and \<open>row['address']\<close> raise KeyError when
  the column is absent.
\<close>

definition priority_score :: "row \<Rightarrow> pyerr + int" where
  "priority_score r =
     (case getitem r str_name of
        Inl e \<Rightarrow> Inl e
      | Inr name \<Rightarrow>
     (case getitem r str_address of
        Inl e \<Rightarrow> Inl e
      | Inr address \<Rightarrow>
          (let s0 = 0;
               s1 = (if str_in EKI name \<or> str_in str_Station name then s0 + 100 else s0);
               s2 = add_ward_bonus YAMANOTE_INNER_WARDS address s1;
               s3 = (if list_ex (\<lambda>keyword. str_in keyword name) public_keywords
                     then s2 + 30 else s2);
               s4 = (if list_ex (\<lambda>keyword. str_in keyword name) landmark_keywords
                     then s3 + 20 else s3)
           in Inr s4)))"

text \<open>The reading loop: \<open>priority_data\<close> collects the rows with a positive score.\<close>

fun score_rows :: "row list \<Rightarrow> pyerr + (int \<times> row) list" where
  "score_rows [] = Inr []"
| "score_rows (r # rs) =
     (case priority_score r of
        Inl e \<Rightarrow> Inl e
      | Inr s \<Rightarrow>
          (case score_rows rs of
             Inl e \<Rightarrow> Inl e
           | Inr priority_data \<Rightarrow>
               Inr (if s > 0 then (s, r) # priority_data else priority_data)))"

text \<open>
  \<open>xs.sort(key=f, reverse=True)\<close>: CPython reverses the list, sorts it with its stable
  sort and reverses the result. \<open>slice_to xs n\<close> is \<open>xs[:n]\<close>, where a negative \<open>n\<close>
  counts from the end.
\<close>

definition sort_reverse :: "('a \<Rightarrow> int) \<Rightarrow> 'a list \<Rightarrow> 'a list" where
  "sort_reverse f xs = rev (sort_key f (rev xs))"

definition slice_to :: "'a list \<Rightarrow> int \<Rightarrow> 'a list" where
  "slice_to xs n = (if n < 0 then take (nat (int (length xs) + n)) xs else take (nat n) xs)"

text \<open>
  \<open>create_priority_csv\<close>, on the field names and rows of the input file: the file
  written and the count returned.
\<close>

definition create_priority_csv :: "ustr list \<Rightarrow> row list \<Rightarrow> int \<Rightarrow> pyerr + (csv_file \<times> nat)" where
  "create_priority_csv headers rs max_items =
     (case score_rows rs of
        Inl e \<Rightarrow> Inl e
      | Inr priority_data \<Rightarrow>
          (let selected_data = map snd (slice_to (sort_reverse fst priority_data) max_items)
           in case write_csv headers selected_data of
                Inl e \<Rightarrow> Inl e
              | Inr f \<Rightarrow> Inr (f, length selected_data)))"

subsection \<open>The merge of the integrated lists\<close>

text \<open>
  \<open>float\<close> is a builtin, not code of the scripts: it is a parameter \<open>pyfloat\<close> of the
  model, any function from the text of a cell to ValueError or a number. Numbers are
  the rationals the floats denote; the rounding of binary floating point is not
  modelled, so \<open>0.0001\<close> is the rational 1/10000 and subtraction is exact.
  \<open>coord pyfloat r k\<close> is \<open>float(r[k])\<close>.
\<close>

definition str_lat :: ustr where
  "str_lat = ascii ''lat''"

definition str_lng :: ustr where
  "str_lng = ascii ''lng''"

definition coord :: "(ustr \<Rightarrow> pyerr + rat) \<Rightarrow> row \<Rightarrow> ustr \<Rightarrow> pyerr + rat" where
  "coord pyfloat r k = (case getitem r k of Inl e \<Rightarrow> Inl e | Inr s \<Rightarrow> pyfloat s)"

text \<open>
  The inner loop over \<open>target_list\<close>: the operands are evaluated left to right, the
  longitudes only when the latitudes are close (\<open>and\<close>), and the loop stops at the first
  duplicate (\<open>break\<close>).
\<close>

fun is_duplicate :: "(ustr \<Rightarrow> pyerr + rat) \<Rightarrow> row list \<Rightarrow> row \<Rightarrow> pyerr + bool" where
  "is_duplicate pyfloat [] r = Inr False"
| "is_duplicate pyfloat (existing_row # target_list) r =
     (case coord pyfloat existing_row str_lat of Inl e \<Rightarrow> Inl e | Inr elat \<Rightarrow>
     (case coord pyfloat r str_lat of Inl e \<Rightarrow> Inl e | Inr rlat \<Rightarrow>
        if \<bar>elat - rlat\<bar> < 1 / 10000 then
          (case coord pyfloat existing_row str_lng of Inl e \<Rightarrow> Inl e | Inr elng \<Rightarrow>
          (case coord pyfloat r str_lng of Inl e \<Rightarrow> Inl e | Inr rlng \<Rightarrow>
             if \<bar>elng - rlng\<bar> < 1 / 10000 then Inr True
             else is_duplicate pyfloat target_list r))
        else is_duplicate pyfloat target_list r))"

text \<open>One candidate row, and the rows of one file.\<close>

definition merge_row :: "(ustr \<Rightarrow> pyerr + rat) \<Rightarrow> row list \<Rightarrow> row \<Rightarrow> pyerr + row list" where
  "merge_row pyfloat target_list r =
     (case is_duplicate pyfloat target_list r of
        Inl e \<Rightarrow> Inl e
      | Inr dup \<Rightarrow> Inr (if \<not> dup then target_list @ [r] else target_list))"

fun merge_rows :: "(ustr \<Rightarrow> pyerr + rat) \<Rightarrow> row list \<Rightarrow> row list \<Rightarrow> pyerr + row list" where
  "merge_rows pyfloat target_list [] = Inr target_list"
| "merge_rows pyfloat target_list (r # rs) =
     (case merge_row pyfloat target_list r of
        Inl e \<Rightarrow> Inl e
      | Inr target_list' \<Rightarrow> merge_rows pyfloat target_list' rs)"

text \<open>
  The loop over the four files of \<open>main\<close>, given the rows of each: the inner-ward public
  file and the priority public file go to \<open>integrated_public\<close>, the two station files to
  \<open>integrated_station\<close>, in the order of the script.
\<close>

definition integrate ::
  "(ustr \<Rightarrow> pyerr + rat) \<Rightarrow> row list \<Rightarrow> row list \<Rightarrow> row list \<Rightarrow> row list
     \<Rightarrow> pyerr + (row list \<times> row list)" where
  "integrate pyfloat yamanote_public yamanote_station priority_public priority_station =
     (case merge_rows pyfloat [] yamanote_public of Inl e \<Rightarrow> Inl e | Inr pub1 \<Rightarrow>
     (case merge_rows pyfloat [] yamanote_station of Inl e \<Rightarrow> Inl e | Inr sta1 \<Rightarrow>
     (case merge_rows pyfloat pub1 priority_public of Inl e \<Rightarrow> Inl e | Inr integrated_public \<Rightarrow>
     (case merge_rows pyfloat sta1 priority_station of Inl e \<Rightarrow> Inl e | Inr integrated_station \<Rightarrow>
        Inr (integrated_public, integrated_station)))))"

text \<open>
  The output of the integrated lists: each file is opened for writing, and the header
  and the rows are written only when the list is not empty, with the keys of the first
  row as field names.
\<close>

definition write_integrated :: "row list \<Rightarrow> pyerr + csv_file" where
  "write_integrated integrated =
     (case integrated of
        [] \<Rightarrow> Inr Empty_file
      | first # _ \<Rightarrow> write_csv (row_keys first) integrated)"

definition integrated_public_path :: ustr where
  "integrated_public_path = ascii ''data/lightweight/integrated_public.csv''"

definition integrated_station_path :: ustr where
  "integrated_station_path = ascii ''data/lightweight/integrated_station.csv''"

definition output_integrated :: "row list \<Rightarrow> row list \<Rightarrow> pyerr + (ustr \<times> csv_file) list" where
  "output_integrated integrated_public integrated_station =
     (case write_integrated integrated_public of Inl e \<Rightarrow> Inl e | Inr f1 \<Rightarrow>
     (case write_integrated integrated_station of Inl e \<Rightarrow> Inl e | Inr f2 \<Rightarrow>
        Inr [(integrated_public_path, f1), (integrated_station_path, f2)]))"

text \<open>The merge followed by the output, as \<open>main\<close> runs them.\<close>

definition main_integrated ::
  "(ustr \<Rightarrow> pyerr + rat) \<Rightarrow> row list \<Rightarrow> row list \<Rightarrow> row list \<Rightarrow> row list
     \<Rightarrow> pyerr + (ustr \<times> csv_file) list" where
  "main_integrated pyfloat yamanote_public yamanote_station priority_public priority_station =
     (case integrate pyfloat yamanote_public yamanote_station priority_public priority_station of
        Inl e \<Rightarrow> Inl e
      | Inr (integrated_public, integrated_station) \<Rightarrow>
          output_integrated integrated_public integrated_station)"

subsection \<open>The merge as the specification words it\<close>




section \<open>Example data\<close>

text \<open>
  Concrete rows on which the theorems below are instantiated: the Tokyo metropolitan
  government building (Tocho) in Chiyoda-ku, Hachioji station in Hachioji-shi, and Oji
  station with an address that names Kita-ku and then Minato-ku.
\<close>

definition ex_name_tocho :: ustr where
  "ex_name_tocho = [0x6771, 0x4EAC, 0x90FD, 0x5E81]"

definition ex_addr_chiyoda :: ustr where
  "ex_addr_chiyoda = [0x6771, 0x4EAC, 0x90FD, 0x5343, 0x4EE3, 0x7530, 0x533A, 0x4E38, 0x306E, 0x5185, 0x31, 0x2D, 0x31]"

definition ex_name_hachioji_eki :: ustr where
  "ex_name_hachioji_eki = [0x516B, 0x738B, 0x5B50, 0x99C5]"

definition ex_addr_hachioji :: ustr where
  "ex_addr_hachioji = [0x6771, 0x4EAC, 0x90FD, 0x516B, 0x738B, 0x5B50, 0x5E02, 0x65ED, 0x753A, 0x31, 0x2D, 0x31]"

definition ex_name_oji_eki :: ustr where
  "ex_name_oji_eki = [0x738B, 0x5B50, 0x99C5]"

definition ex_addr_kita_minato :: ustr where
  "ex_addr_kita_minato = [0x6771, 0x4EAC, 0x90FD, 0x5317, 0x533A, 0x738B, 0x5B50, 0x31, 0x2D, 0x31, 0x20, 0x6E2F, 0x533A, 0x5206, 0x5BA4]"

definition ex_headers :: "ustr list" where
  "ex_headers = [ascii ''name'', ascii ''address'']"

definition ex_row_chiyoda :: row where
  "ex_row_chiyoda = [(ascii ''name'', ex_name_tocho), (ascii ''address'', ex_addr_chiyoda)]"

definition ex_row_hachioji :: row where
  "ex_row_hachioji = [(ascii ''name'', ex_name_hachioji_eki), (ascii ''address'', ex_addr_hachioji)]"

definition ex_row_kita_minato :: row where
  "ex_row_kita_minato = [(ascii ''name'', ex_name_oji_eki), (ascii ''address'', ex_addr_kita_minato)]"


text \<open>
  Tokyo station in Chiyoda-ku (score 170), a community centre (shimin senta) in
  Hachioji-shi that matches no priority rule, and Tokyo tower in Minato-ku.
\<close>

definition ex_name_tokyo_eki :: ustr where
  "ex_name_tokyo_eki = [0x6771, 0x4EAC, 0x99C5]"

definition ex_row_tokyo_eki :: row where
  "ex_row_tokyo_eki = [(ascii ''name'', ex_name_tokyo_eki), (ascii ''address'', ex_addr_chiyoda)]"

definition ex_name_center :: ustr where
  "ex_name_center = [0x5E02, 0x6C11, 0x30BB, 0x30F3, 0x30BF, 0x30FC]"

definition ex_row_center :: row where
  "ex_row_center = [(ascii ''name'', ex_name_center), (ascii ''address'', ex_addr_hachioji)]"

definition ex_name_tower :: ustr where
  "ex_name_tower = [0x6771, 0x4EAC, 0x30BF, 0x30EF, 0x30FC]"

definition ex_addr_minato :: ustr where
  "ex_addr_minato = [0x6771, 0x4EAC, 0x90FD, 0x6E2F, 0x533A, 0x829D, 0x516C, 0x5712, 0x34, 0x2D, 0x32, 0x2D, 0x38]"

definition ex_row_tower :: row where
  "ex_row_tower = [(ascii ''name'', ex_name_tower), (ascii ''address'', ex_addr_minato)]"

text \<open>Six rows with the scores 70, 0, 100, 70, 170 and 150, in this order.\<close>

definition ex_priority_rows :: "row list" where
  "ex_priority_rows = [ex_row_chiyoda, ex_row_center, ex_row_hachioji, ex_row_tower,
                       ex_row_tokyo_eki, ex_row_kita_minato]"


text \<open>
  A \<open>float\<close> for the examples: it reads the plain decimal numerals (an optional minus
  sign, digits, and optionally a point and more digits) with the value \<open>float\<close> gives
  them, and raises ValueError on every other text.
\<close>

definition digit_value :: "nat \<Rightarrow> nat option" where
  "digit_value c = (if 0x30 \<le> c \<and> c \<le> 0x39 then Some (c - 0x30) else None)"

fun digits_value :: "nat \<Rightarrow> ustr \<Rightarrow> nat option" where
  "digits_value n [] = Some n"
| "digits_value n (c # cs) =
     (case digit_value c of None \<Rightarrow> None | Some d \<Rightarrow> digits_value (10 * n + d) cs)"

definition dec_float :: "ustr \<Rightarrow> pyerr + rat" where
  "dec_float s =
     (let negative = (s \<noteq> [] \<and> hd s = 0x2D);
          body = (if negative then tl s else s);
          int_part = takeWhile (\<lambda>c. c \<noteq> 0x2E) body;
          frac_part = drop (Suc (length int_part)) body
      in if int_part = [] then Inl ValueError
         else (case (digits_value 0 int_part, digits_value 0 frac_part) of
                 (Some i, Some f) \<Rightarrow>
                   Inr ((if negative then - 1 else 1)
                        * (of_nat i + of_nat f / 10 ^ length frac_part))
               | _ \<Rightarrow> Inl ValueError))"

text \<open>
  Rows with coordinates: a facility A; a facility B at the same place; a facility C
  0.00011 further north; a facility D 0.00009 away in both coordinates; a row whose
  latitude is the text abc; a row far from A whose longitude is the text abc.
\<close>

definition ex_pin_headers :: "ustr list" where
  "ex_pin_headers = [ascii ''name'', ascii ''lat'', ascii ''lng'']"

definition ex_pin_a :: row where
  "ex_pin_a = [(ascii ''name'', ascii ''A''), (ascii ''lat'', ascii ''35.68950''),
               (ascii ''lng'', ascii ''139.69170'')]"

definition ex_pin_b :: row where
  "ex_pin_b = [(ascii ''name'', ascii ''B''), (ascii ''lat'', ascii ''35.68950''),
               (ascii ''lng'', ascii ''139.69170'')]"

definition ex_pin_c :: row where
  "ex_pin_c = [(ascii ''name'', ascii ''C''), (ascii ''lat'', ascii ''35.68961''),
               (ascii ''lng'', ascii ''139.69170'')]"

definition ex_pin_d :: row where
  "ex_pin_d = [(ascii ''name'', ascii ''D''), (ascii ''lat'', ascii ''35.68959''),
               (ascii ''lng'', ascii ''139.69179'')]"

definition ex_pin_bad_lat :: row where
  "ex_pin_bad_lat = [(ascii ''name'', ascii ''E''), (ascii ''lat'', ascii ''abc''),
                     (ascii ''lng'', ascii ''139.69170'')]"

definition ex_pin_bad_lng :: row where
  "ex_pin_bad_lng = [(ascii ''name'', ascii ''F''), (ascii ''lat'', ascii ''35.70000''),
                     (ascii ''lng'', ascii ''abc'')]"

text \<open>
  Rows of the pin formatter: one whose door type is a single space, and one with two
  features, a sliding door (hikido) padded with spaces, hours on four days and remarks.
\<close>

definition ex_note_blank_door :: row where
  "ex_note_blank_door = [(col_door_type, ascii '' '')]"

definition ex_hikido :: ustr where
  "ex_hikido = [0x5F15, 0x304D, 0x6238]"

definition ex_note_full :: row where
  "ex_note_full = [(col_wheelchair, ascii ''TRUE''), (col_ostomate, ascii ''FALSE''),
     (col_large_bed, ascii ''TRUE''), (col_door_type, ascii '' '' @ ex_hikido @ ascii '' ''),
     (days ! 0, ascii ''9-17''), (days ! 1, ascii '' ''), (days ! 2, ascii ''9-17''),
     (days ! 3, ascii ''9-12''), (days ! 5, ascii ''10-15''), (col_remarks, ascii ''2F'')]"

definition ex_note_plain :: row where
  "ex_note_plain = [(col_wheelchair, ascii ''TRUE''), (col_remarks, ascii ''2F'')]"


text \<open>
  Addresses for the region classifier: one that names Hachioji-shi and then Minato-ku,
  one in Okutama-machi (Nishitama), one in Oshima-machi (an island) and one in Osaka;
  and a row in Okutama-machi.
\<close>

definition ex_addr_city_and_ward :: ustr where
  "ex_addr_city_and_ward = [0x6771, 0x4EAC, 0x90FD, 0x516B, 0x738B, 0x5B50, 0x5E02, 0x20, 0x6E2F, 0x533A]"

definition ex_addr_okutama :: ustr where
  "ex_addr_okutama = [0x6771, 0x4EAC, 0x90FD, 0x897F, 0x591A, 0x6469, 0x90E1, 0x5965, 0x591A, 0x6469, 0x753A, 0x6C37, 0x5DDD]"

definition ex_addr_oshima :: ustr where
  "ex_addr_oshima = [0x6771, 0x4EAC, 0x90FD, 0x5927, 0x5CF6, 0x753A, 0x5143, 0x753A]"

definition ex_addr_osaka :: ustr where
  "ex_addr_osaka = [0x5927, 0x962A, 0x5E9C, 0x5927, 0x962A, 0x5E02]"

definition ex_row_okutama :: row where
  "ex_row_okutama = [(ascii ''name'', ex_name_center), (ascii ''address'', ex_addr_okutama)]"

text \<open>
  Directories for the aggregation: the city directory lists Tachikawa-shi.csv before
  Hachioji-shi.csv, and Ome-shi.csv, which is not a major city; the same row is in two
  files. The town directory holds a text file and Okutama-machi.csv.
\<close>

definition ex_tama_dir :: "(ustr \<times> csv_file) list" where
  "ex_tama_dir =
     [(TAMA_CITIES ! 1 @ ascii ''.csv'', Table ex_headers [ex_row_hachioji]),
      (TAMA_CITIES ! 0 @ ascii ''.csv'', Table ex_headers [ex_row_hachioji, ex_row_center]),
      (TAMA_CITIES ! 4 @ ascii ''.csv'', Table ex_headers [ex_row_center])]"

definition ex_nishi_dir :: "(ustr \<times> csv_file) list" where
  "ex_nishi_dir =
     [(ascii ''notes.txt'', Table ex_headers [ex_row_center]),
      (NISHI_TAMA_GUN ! 3 @ ascii ''.csv'', Table ex_headers [ex_row_okutama])]"


text \<open>
  Inputs of the schema transformer: the columns facility name, prefecture and door type;
  a row whose facility name is a single space, and a row named Tocho with the marker
  U+25CB under a wheelchair column.
\<close>

definition ex_source_columns :: "ustr list" where
  "ex_source_columns = [target_columns ! 0, target_columns ! 1, target_columns ! 8, target_columns ! 9]"

definition ex_source_blank_name :: row where
  "ex_source_blank_name = [(target_columns ! 0, ascii '' ''), (target_columns ! 1, ascii ''Tokyo''),
     (target_columns ! 8, ex_hikido), (target_columns ! 9, [0x25CB])]"

definition ex_source_tocho :: row where
  "ex_source_tocho = [(target_columns ! 0, ex_name_tocho), (target_columns ! 1, ascii ''Tokyo''),
     (target_columns ! 8, ex_hikido), (target_columns ! 9, [0x25CB])]"

section \<open>Facts about the string operations\<close>

lemma str_in_iff: "str_in needle hay \<longleftrightarrow> (\<exists>ps ss. hay = ps @ needle @ ss)"
proof (induction hay)
  case Nil
  then show ?case by auto
next
  case (Cons c cs)
  show ?case
  proof
    assume "str_in needle (c # cs)"
    then consider "prefix needle (c # cs)" | "str_in needle cs" by auto
    then show "\<exists>ps ss. c # cs = ps @ needle @ ss"
    proof cases
      case 1
      then obtain ss where "c # cs = needle @ ss" by (auto simp: prefix_def)
      then have "c # cs = [] @ needle @ ss" by simp
      then show ?thesis by blast
    next
      case 2
      with Cons.IH obtain ps ss where "cs = ps @ needle @ ss" by blast
      then have "c # cs = (c # ps) @ needle @ ss" by simp
      then show ?thesis by blast
    qed
  next
    assume "\<exists>ps ss. c # cs = ps @ needle @ ss"
    then obtain ps ss where eq: "c # cs = ps @ needle @ ss" by blast
    show "str_in needle (c # cs)"
    proof (cases ps)
      case Nil
      with eq have "prefix needle (c # cs)" by (simp add: prefix_def)
      then show ?thesis by simp
    next
      case (Cons p ps')
      with eq have "cs = ps' @ needle @ ss" by simp
      with Cons.IH have "str_in needle cs" by blast
      then show ?thesis by simp
    qed
  qed
qed

section \<open>Facts about groups and searches\<close>






section \<open>Schema transformer: the boolean mapping is total\<close>

text \<open>
  Claim C5. The boolean-marker conversion (in both transformer scripts) maps the marker
  U+25CB to TRUE and every other string to FALSE; in particular the multiplication
  sign, the empty string and the unknown value ??? all give FALSE.
\<close>

theorem convert_boolean_value_total:
  "convert_boolean_value v = (if v = [0x25CB] then ascii ''TRUE'' else ascii ''FALSE'')
   \<and> convert_boolean_value_builtin v = (if v = [0x25CB] then ascii ''TRUE'' else ascii ''FALSE'')
   \<and> map convert_boolean_value [[0x25CB], [0xD7], [], ascii ''???'']
       = [ascii ''TRUE'', ascii ''FALSE'', ascii ''FALSE'', ascii ''FALSE'']
   \<and> map convert_boolean_value_builtin [[0x25CB], [0xD7], [], ascii ''???'']
       = [ascii ''TRUE'', ascii ''FALSE'', ascii ''FALSE'', ascii ''FALSE'']"
  by (simp add: convert_boolean_value_def convert_boolean_value_builtin_def MARU_def BATSU_def
      str_TRUE_def str_FALSE_def ascii_def)

section \<open>Schema transformer: the two implementations\<close>

text \<open>
  The columns of the two scripts correspond. On an input that has the facility-name
  column, whose rows have only keys of the input columns and whose facility names are
  empty or hold a character that is not white space, the two scripts agree; so they
  agree on the Tocho row.
\<close>

lemma map_of_mapped_snd:
  "distinct (map snd xs) \<Longrightarrow> (s, t) \<in> set xs \<Longrightarrow>
   map_of (map (\<lambda>(s, t). (t, f s t)) xs) t = Some (f s t)"
proof (induction xs)
  case Nil
  then show ?case by simp
next
  case (Cons x xs)
  obtain s' t' where x: "x = (s', t')" by (cases x)
  show ?case
  proof (cases "t' = t")
    case True
    with Cons.prems x have "s' = s" by (auto simp: image_iff)
    with True x show ?thesis by simp
  next
    case False
    with Cons x show ?thesis by auto
  qed
qed

lemma map_of_mapped_key:
  "c \<in> set cs \<Longrightarrow> map_of (map (\<lambda>c. (c, g c)) cs) c = Some (g c)"
  by (induction cs) auto

lemma mapping_targets_distinct: "distinct (map snd column_mapping)"
  by (simp add: column_mapping_def ascii_def)

lemma mapping_booleans_all:
  "list_all (\<lambda>(s, t). (t \<in> set boolean_columns) = (s \<in> set boolean_columns_builtin)) column_mapping"
  by (simp add: column_mapping_def boolean_columns_def boolean_columns_builtin_def ascii_def)

lemma mapping_booleans:
  "(s, t) \<in> set column_mapping \<Longrightarrow> (t \<in> set boolean_columns) = (s \<in> set boolean_columns_builtin)"
  using mapping_booleans_all unfolding list_all_iff by blast

lemma target_columns_mapping: "target_columns = map fst column_mapping"
  by (simp add: target_columns_def column_mapping_def)

lemma convert_boolean_value_same: "convert_boolean_value_builtin v = convert_boolean_value v"
  by (simp add: convert_boolean_value_def convert_boolean_value_builtin_def)

lemma target_cells_agree:
  assumes "(s, t) \<in> set column_mapping" "list_all (\<lambda>k. k \<in> set columns) (row_keys r)"
  shows "target_cell_pandas columns r s t =
     (let value = get_default r s []
      in if s \<in> set boolean_columns_builtin then convert_boolean_value_builtin value else value)"
proof -
  have absent: "s \<notin> set columns \<Longrightarrow> get_default r s [] = []"
  proof -
    assume "s \<notin> set columns"
    with assms(2) have "s \<notin> fst ` set r" by (auto simp: row_keys_def list_all_iff)
    then have "map_of r s = None" by (simp add: map_of_eq_None_iff)
    then show ?thesis by (simp add: get_default_def)
  qed
  have false: "convert_boolean_value [] = str_FALSE"
    by (simp add: convert_boolean_value_def MARU_def BATSU_def)
  show ?thesis
  proof (cases "s \<in> set columns")
    case True
    then show ?thesis
      using mapping_booleans [OF assms(1)] false
      by (simp add: target_cell_pandas_def pd_read_cell_def convert_boolean_value_same Let_def)
  next
    case False
    then show ?thesis
      using mapping_booleans [OF assms(1)] absent false
      by (simp add: target_cell_pandas_def convert_boolean_value_same Let_def)
  qed
qed

lemma target_rows_agree:
  assumes "list_all (\<lambda>k. k \<in> set columns) (row_keys r)"
  shows "rows_agree
           (map (\<lambda>(source_col, target_col).
                   (target_col, target_cell_pandas columns r source_col target_col)) column_mapping)
           (target_row_builtin r)"
  unfolding rows_agree_def list_all_iff
proof (clarify)
  fix s t assume st: "(s, t) \<in> set column_mapping"
  then have "s \<in> set target_columns" by (force simp: target_columns_mapping)
  then have b: "map_of (target_row_builtin r) s =
      Some (let value = get_default r s []
            in if s \<in> set boolean_columns_builtin then convert_boolean_value_builtin value else value)"
    unfolding target_row_builtin_def by (rule map_of_mapped_key)
  have p: "map_of (map (\<lambda>(source_col, target_col).
                   (target_col, target_cell_pandas columns r source_col target_col)) column_mapping) t
      = Some (target_cell_pandas columns r s t)"
    by (rule map_of_mapped_snd [OF mapping_targets_distinct st])
  from b p target_cells_agree [OF st assms]
  show "map_of (map (\<lambda>(source_col, target_col).
                   (target_col, target_cell_pandas columns r source_col target_col)) column_mapping) t
      = map_of (target_row_builtin r) s"
    by simp
qed

lemma empty_rows_agree:
  "rows_agree (map (\<lambda>(source_col, target_col). (target_col, [])) column_mapping)
              (map (\<lambda>col. (col, [])) target_columns)"
  unfolding rows_agree_def list_all_iff
proof (clarify)
  fix s t assume st: "(s, t) \<in> set column_mapping"
  then have "s \<in> set target_columns" by (force simp: target_columns_mapping)
  then have "map_of (map (\<lambda>col. (col, [] :: ustr)) target_columns) s = Some []"
    by (rule map_of_mapped_key)
  moreover have "map_of (map (\<lambda>(source_col, target_col). (target_col, [] :: ustr)) column_mapping) t
      = Some []"
    by (rule map_of_mapped_snd [OF mapping_targets_distinct st])
  ultimately show "map_of (map (\<lambda>(source_col, target_col). (target_col, [] :: ustr)) column_mapping) t
      = map_of (map (\<lambda>col. (col, [])) target_columns) s"
    by simp
qed

lemma strip_Nil: "strip [] = []"
  by (simp add: strip_def)

lemma transformers_agree_plain_names:
  assumes "col_facility_name \<in> set columns"
    and "list_all (\<lambda>r. list_all (\<lambda>k. k \<in> set columns) (row_keys r)) rs"
    and "list_all (\<lambda>r. strip (get_default r col_facility_name []) = []
                         \<longrightarrow> get_default r col_facility_name [] = []) rs"
  shows "transformers_agree columns rs"
proof -
  have keep: "\<And>r. r \<in> set rs \<Longrightarrow>
      pandas_keeps r = (strip (get_default r col_facility_name []) \<noteq> [])"
    using assms(3) by (auto simp: pandas_keeps_def pd_read_cell_def list_all_iff strip_Nil)
  then have same: "filter pandas_keeps rs
      = filter (\<lambda>r. strip (get_default r col_facility_name []) \<noteq> []) rs"
    by (auto intro: filter_cong)
  have "list_all2 rows_agree
      (map (\<lambda>r. map (\<lambda>(source_col, target_col).
                        (target_col, target_cell_pandas columns r source_col target_col))
                     column_mapping) (filter pandas_keeps rs))
      (map target_row_builtin (filter pandas_keeps rs))"
    unfolding list_all2_map1 list_all2_map2
  proof (rule list_all2_all_nthI)
    show "length (filter pandas_keeps rs) = length (filter pandas_keeps rs)" by simp
  next
    fix n assume "n < length (filter pandas_keeps rs)"
    then have "filter pandas_keeps rs ! n \<in> set rs"
      using nth_mem [of n "filter pandas_keeps rs"] by auto
    with assms(2) have "list_all (\<lambda>k. k \<in> set columns) (row_keys (filter pandas_keeps rs ! n))"
      by (simp add: list_all_iff)
    then show "rows_agree
        (map (\<lambda>(source_col, target_col).
                (target_col, target_cell_pandas columns (filter pandas_keeps rs ! n) source_col target_col))
             column_mapping)
        (target_row_builtin (filter pandas_keeps rs ! n))"
      by (rule target_rows_agree)
  qed
  with empty_rows_agree assms(1) same show ?thesis
    by (simp add: transformers_agree_def transform_csv_pandas_def transform_csv_builtin_def)
qed

lemma ex_pandas_keeps_blank: "pandas_keeps ex_source_blank_name"
  by (simp add: pandas_keeps_def pd_read_cell_def get_default_def ex_source_blank_name_def
      col_facility_name_def target_columns_def ascii_def)

lemma ex_builtin_drops_blank:
  "strip (get_default ex_source_blank_name col_facility_name []) = []"
  by (simp add: get_default_def ex_source_blank_name_def col_facility_name_def target_columns_def
      strip_def py_isspace_def ascii_def)

lemma ex_columns_have_name: "col_facility_name \<in> set ex_source_columns"
  by (simp add: ex_source_columns_def col_facility_name_def target_columns_def)

lemma ex_tocho_agree: "transformers_agree ex_source_columns [ex_source_tocho]"
proof (rule transformers_agree_plain_names)
  show "col_facility_name \<in> set ex_source_columns" by (rule ex_columns_have_name)
next
  show "list_all (\<lambda>r. list_all (\<lambda>k. k \<in> set ex_source_columns) (row_keys r)) [ex_source_tocho]"
    by (simp add: ex_source_columns_def ex_source_tocho_def row_keys_def)
next
  show "list_all (\<lambda>r. strip (get_default r col_facility_name []) = []
                         \<longrightarrow> get_default r col_facility_name [] = []) [ex_source_tocho]"
    by (simp add: get_default_def ex_source_tocho_def col_facility_name_def target_columns_def
        ex_name_tocho_def strip_def py_isspace_def)
qed

text \<open>
  Claim C9. The two transformers are meant to be one transformation (the second is the
  first without its dependency), and the claim says that they drop the same rows. They
  do not: for an input row whose facility name is a single space, the pandas script
  keeps the row (the name is neither NaN nor the empty text), and the other script drops
  it (the name is empty after \<open>strip\<close>). The pandas output has two rows, the empty row
  and the row kept; the other output has the empty row only.
\<close>

theorem transformers_diverge:
  "get_default ex_source_blank_name col_facility_name [] = ascii '' ''
   \<and> (case transform_csv_pandas ex_source_columns [ex_source_blank_name] of
         Inl e \<Rightarrow> 0 | Inr f \<Rightarrow> length (records f)) = 2
   \<and> length (records (transform_csv_builtin [ex_source_blank_name])) = 1
   \<and> \<not> transformers_agree ex_source_columns [ex_source_blank_name]"
proof -
  have 1: "get_default ex_source_blank_name col_facility_name [] = ascii '' ''"
    by (simp add: get_default_def ex_source_blank_name_def col_facility_name_def target_columns_def)
  have 2: "(case transform_csv_pandas ex_source_columns [ex_source_blank_name] of
         Inl e \<Rightarrow> 0 | Inr f \<Rightarrow> length (records f)) = 2"
    by (simp add: transform_csv_pandas_def ex_columns_have_name ex_pandas_keeps_blank)
  have 3: "length (records (transform_csv_builtin [ex_source_blank_name])) = 1"
    by (simp add: transform_csv_builtin_def ex_builtin_drops_blank)
  have 4: "\<not> transformers_agree ex_source_columns [ex_source_blank_name]"
    by (simp add: transformers_agree_def transform_csv_pandas_def transform_csv_builtin_def
        ex_columns_have_name ex_pandas_keeps_blank ex_builtin_drops_blank)
  from 1 2 3 4 show ?thesis by (intro conjI)
qed

section \<open>Pin formatter: the note\<close>

lemma collect_hours_eq:
  "collect_hours r ds =
     map (\<lambda>day. day @ sep_colon @ strip (get_default r day []))
         (filter (\<lambda>day. strip (get_default r day []) \<noteq> []) ds)"
  by (induction ds) (simp_all add: Let_def)

lemma feature_labels_eq:
  "feature_labels r = feature_if r col_wheelchair label_wheelchair
                   @ feature_if r col_ostomate label_ostomate
                   @ feature_if r col_large_bed label_large_bed
                   @ feature_if r col_changing_table label_changing_table
                   @ feature_if r col_baby_chair label_baby_chair"
  by (simp add: feature_labels_def feature_columns_def feature_if_def)

lemma create_facility_note_sections:
  "create_facility_note r = join sep_bar (note_sections strip r)"
  by (simp add: create_facility_note_def note_sections_def Let_def feature_labels_eq [symmetric]
      collect_hours_eq hour_entries_def)

lemma join_nonempty: "parts \<noteq> [] \<Longrightarrow> hd parts \<noteq> [] \<Longrightarrow> join sep parts \<noteq> []"
  by (induction sep parts rule: join.induct) auto

lemma feature_labels_nonempty:
  assumes "label \<in> set (feature_labels r)"
  shows "label \<noteq> []"
proof -
  from assms have "label \<in> snd ` set feature_columns"
    by (auto simp: feature_labels_def)
  then show ?thesis
    by (auto simp: feature_columns_def label_wheelchair_def label_ostomate_def
        label_large_bed_def label_changing_table_def label_baby_chair_def)
qed

lemma hour_entries_nonempty: "entry \<in> set (hour_entries cell r) \<Longrightarrow> entry \<noteq> []"
  by (auto simp: hour_entries_def sep_colon_def)


lemma note_sections_content:
  assumes "s \<in> set (note_sections cell r)"
  shows "\<exists>pre content. s = pre @ content \<and> content \<noteq> []
           \<and> pre \<in> {prefix_features, prefix_door, prefix_hours, prefix_remarks}"
proof -
  have f: "feature_labels r \<noteq> [] \<Longrightarrow> join sep_comma (feature_labels r) \<noteq> []"
  proof (rule join_nonempty)
    assume ne: "feature_labels r \<noteq> []"
    then show "feature_labels r \<noteq> []" .
    from ne have "hd (feature_labels r) \<in> set (feature_labels r)" by simp
    then show "hd (feature_labels r) \<noteq> []" by (rule feature_labels_nonempty)
  qed
  have h: "hour_entries cell r \<noteq> [] \<Longrightarrow> join sep_comma (take 3 (hour_entries cell r)) \<noteq> []"
  proof (rule join_nonempty)
    assume ne: "hour_entries cell r \<noteq> []"
    then show "take 3 (hour_entries cell r) \<noteq> []" by simp
    from ne have "hd (take 3 (hour_entries cell r)) \<in> set (hour_entries cell r)"
      by (cases "hour_entries cell r") simp_all
    then show "hd (take 3 (hour_entries cell r)) \<noteq> []" by (rule hour_entries_nonempty)
  qed
  from assms consider
      "feature_labels r \<noteq> []" "s = prefix_features @ join sep_comma (feature_labels r)"
    | "cell (get_default r col_door_type []) \<noteq> []" "s = prefix_door @ cell (get_default r col_door_type [])"
    | "hour_entries cell r \<noteq> []" "s = prefix_hours @ join sep_comma (take 3 (hour_entries cell r))"
    | "cell (get_default r col_remarks []) \<noteq> []" "s = prefix_remarks @ cell (get_default r col_remarks [])"
    by (auto simp: note_sections_def split: if_splits)
  then show ?thesis
  proof cases
    case 1
    with f show ?thesis by blast
  next
    case 2
    then show ?thesis by blast
  next
    case 3
    with h show ?thesis by blast
  next
    case 4
    then show ?thesis by blast
  qed
qed

lemma note_sections_id:
  assumes "strip (get_default r col_door_type []) = get_default r col_door_type []"
    and "strip (get_default r col_remarks []) = get_default r col_remarks []"
    and "\<forall>day \<in> set days. strip (get_default r day []) = get_default r day []"
  shows "note_sections strip r = note_sections id r"
proof -
  have "hour_entries strip r = hour_entries id r"
    unfolding hour_entries_def using assms(3)
    by (auto intro!: map_cong filter_cong)
  with assms(1,2) show ?thesis by (simp add: note_sections_def)
qed

subsection \<open>The notes of the example rows\<close>

lemmas note_consts = col_wheelchair_def col_ostomate_def col_large_bed_def col_changing_table_def
  col_baby_chair_def label_wheelchair_def label_ostomate_def label_large_bed_def
  label_changing_table_def label_baby_chair_def col_door_type_def col_remarks_def days_def
  prefix_features_def prefix_door_def prefix_hours_def prefix_remarks_def sep_comma_def
  sep_colon_def sep_bar_def str_TRUE_def ascii_def

lemma strip_space: "strip (ascii '' '') = []"
  by (simp add: strip_def py_isspace_def ascii_def)

lemma ex_blank_door_note: "create_facility_note ex_note_blank_door = []"
  by (simp add: create_facility_note_def feature_if_def get_default_def ex_note_blank_door_def
      note_consts strip_def py_isspace_def Let_def)

lemma ex_blank_door_sections:
  "note_sections id ex_note_blank_door = [prefix_door @ ascii '' '']"
  by (simp add: note_sections_def feature_labels_def feature_columns_def hour_entries_def
      get_default_def ex_note_blank_door_def note_consts)

lemma ex_full_note:
  "create_facility_note ex_note_full =
     prefix_features @ label_wheelchair @ sep_comma @ label_large_bed @ sep_bar
   @ prefix_door @ ex_hikido @ sep_bar
   @ prefix_hours @ days ! 0 @ ascii '': 9-17, '' @ days ! 2 @ ascii '': 9-17, '' @ days ! 3 @ ascii '': 9-12''
   @ sep_bar @ prefix_remarks @ ascii ''2F''"
  by (simp add: create_facility_note_def feature_if_def get_default_def ex_note_full_def
      ex_hikido_def note_consts strip_def py_isspace_def Let_def)


lemma ex_full_sections:
  "note_sections strip ex_note_full =
     [prefix_features @ label_wheelchair @ sep_comma @ label_large_bed,
      prefix_door @ ex_hikido,
      prefix_hours @ days ! 0 @ ascii '': 9-17, '' @ days ! 2 @ ascii '': 9-17, '' @ days ! 3 @ ascii '': 9-12'',
      prefix_remarks @ ascii ''2F'']"
  by (simp add: note_sections_def feature_labels_def feature_columns_def hour_entries_def
      get_default_def ex_note_full_def ex_hikido_def note_consts strip_def py_isspace_def)

lemma ex_plain_unpadded:
  "strip (get_default ex_note_plain col_door_type []) = get_default ex_note_plain col_door_type []
   \<and> strip (get_default ex_note_plain col_remarks []) = get_default ex_note_plain col_remarks []
   \<and> (\<forall>day \<in> set days. strip (get_default ex_note_plain day []) = get_default ex_note_plain day [])"
  by (simp add: get_default_def ex_note_plain_def note_consts strip_def py_isspace_def)

lemma ex_plain_sections:
  "note_sections id ex_note_plain = [prefix_features @ label_wheelchair, prefix_remarks @ ascii ''2F'']"
  by (simp add: note_sections_def feature_labels_def feature_columns_def hour_entries_def
      get_default_def ex_note_plain_def note_consts)

subsection \<open>The sections of the note\<close>

text \<open>
  Claim C8, as stated, fails: the door type, the hours and the remarks are stripped of
  surrounding white space before they are tested and emitted. A row whose door type is
  a single space has a door-type value that is not empty, yet its note has no door
  section (the note is empty), where the sections of the claim would give the door
  prefix followed by the space.
\<close>

theorem facility_note_counterexample:
  "get_default ex_note_blank_door col_door_type [] = ascii '' ''
   \<and> ascii '' '' \<noteq> []
   \<and> create_facility_note ex_note_blank_door = []
   \<and> join sep_bar (note_sections id ex_note_blank_door) = prefix_door @ ascii '' ''
   \<and> create_facility_note ex_note_blank_door \<noteq> join sep_bar (note_sections id ex_note_blank_door)"
proof -
  have 1: "get_default ex_note_blank_door col_door_type [] = ascii '' ''"
    by (simp add: get_default_def ex_note_blank_door_def)
  have 2: "ascii '' '' \<noteq> []" by (simp add: ascii_def)
  have 3: "join sep_bar (note_sections id ex_note_blank_door) = prefix_door @ ascii '' ''"
    by (simp add: ex_blank_door_sections)
  have 4: "create_facility_note ex_note_blank_door \<noteq> join sep_bar (note_sections id ex_note_blank_door)"
    by (simp add: 3 ex_blank_door_note prefix_door_def)
  from 1 2 ex_blank_door_note 3 4 show ?thesis by (intro conjI)
qed

text \<open>
  Claim C8, amended. The note is the join with space, bar, space of the sections that
  have data, in the fixed order: the feature prefix and the comma-joined labels of the
  feature columns whose value is the text TRUE; the door prefix and the stripped door
  type when that is not empty; the hours prefix and the comma-joined first three entries
  (day, colon, stripped hours) among the 8 days whose stripped hours are not empty; the
  remarks prefix and the stripped remarks when they are not empty. Every section emitted
  is one of the four prefixes followed by content that is not empty. For a row whose
  door type, hours and remarks have no surrounding white space, the note is the one of
  the claim as stated.
\<close>

theorem facility_note_sections:
  "create_facility_note r = join sep_bar (note_sections strip r)
   \<and> (\<forall>s \<in> set (note_sections strip r). \<exists>pre content. s = pre @ content \<and> content \<noteq> []
          \<and> pre \<in> {prefix_features, prefix_door, prefix_hours, prefix_remarks})
   \<and> (strip (get_default r col_door_type []) = get_default r col_door_type []
       \<and> strip (get_default r col_remarks []) = get_default r col_remarks []
       \<and> (\<forall>day \<in> set days. strip (get_default r day []) = get_default r day []) \<longrightarrow>
        create_facility_note r = join sep_bar (note_sections id r))
   \<and> length feature_columns = 5 \<and> length days = 8"
proof (intro conjI impI ballI)
  show "create_facility_note r = join sep_bar (note_sections strip r)"
    by (rule create_facility_note_sections)
next
  fix s assume "s \<in> set (note_sections strip r)"
  then show "\<exists>pre content. s = pre @ content \<and> content \<noteq> []
          \<and> pre \<in> {prefix_features, prefix_door, prefix_hours, prefix_remarks}"
    by (rule note_sections_content)
next
  assume "strip (get_default r col_door_type []) = get_default r col_door_type []
       \<and> strip (get_default r col_remarks []) = get_default r col_remarks []
       \<and> (\<forall>day \<in> set days. strip (get_default r day []) = get_default r day [])"
  then have "note_sections strip r = note_sections id r" using note_sections_id by blast
  then show "create_facility_note r = join sep_bar (note_sections id r)"
    by (simp add: create_facility_note_sections)
next
  show "length feature_columns = 5" by (simp add: feature_columns_def)
next
  show "length days = 8" by (simp add: days_def)
qed

theorem facility_note_sections_witness:
  "create_facility_note ex_note_full =
     join sep_bar
       [prefix_features @ label_wheelchair @ sep_comma @ label_large_bed,
        prefix_door @ ex_hikido,
        prefix_hours @ days ! 0 @ ascii '': 9-17, '' @ days ! 2 @ ascii '': 9-17, '' @ days ! 3 @ ascii '': 9-12'',
        prefix_remarks @ ascii ''2F'']
   \<and> create_facility_note ex_note_plain
       = join sep_bar [prefix_features @ label_wheelchair, prefix_remarks @ ascii ''2F'']"
proof -
  from facility_note_sections [of ex_note_full, THEN conjunct1]
  have one: "create_facility_note ex_note_full = join sep_bar (note_sections strip ex_note_full)" .
  from facility_note_sections [of ex_note_plain, THEN conjunct2, THEN conjunct2, THEN conjunct1,
      THEN mp, OF ex_plain_unpadded]
  have two: "create_facility_note ex_note_plain = join sep_bar (note_sections id ex_note_plain)" .
  from one two show ?thesis by (simp add: ex_full_sections ex_plain_sections)
qed

section \<open>Ward splitter: classification and the files written\<close>


















section \<open>Priority filter: score, order and truncation\<close>

lemma add_ward_bonus_eq:
  "add_ward_bonus wards address s = s + (if \<exists>ward \<in> set wards. str_in ward address then 50 else 0)"
  by (induction wards) auto

lemma priority_score_eq:
  assumes "map_of r str_name = Some name" "map_of r str_address = Some address"
  shows "priority_score r =
     Inr ((if str_in EKI name \<or> str_in str_Station name then 100 else 0)
        + (if \<exists>ward \<in> set YAMANOTE_INNER_WARDS. str_in ward address then 50 else 0)
        + (if \<exists>keyword \<in> set public_keywords. str_in keyword name then 30 else 0)
        + (if \<exists>keyword \<in> set landmark_keywords. str_in keyword name then 20 else 0))"
  using assms
  by (simp add: priority_score_def getitem_def add_ward_bonus_eq list_ex_iff Let_def)

lemma score_rows_set:
  "score_rows rs = Inr priority_data \<Longrightarrow>
   set priority_data = {(s, r). r \<in> set rs \<and> priority_score r = Inr s \<and> 0 < s}"
proof (induction rs arbitrary: priority_data)
  case Nil
  then show ?case by simp
next
  case (Cons r rs)
  from Cons.prems obtain s ps where s: "priority_score r = Inr s" and ps: "score_rows rs = Inr ps"
    and pd: "priority_data = (if s > 0 then (s, r) # ps else ps)"
    by (auto split: sum.splits)
  from Cons.IH [OF ps] s pd show ?case by auto
qed

lemma set_sort_reverse: "set (sort_reverse f xs) = set xs"
  by (simp add: sort_reverse_def)

lemma set_slice_to: "set (slice_to xs n) \<subseteq> set xs"
  by (auto simp: slice_to_def dest: in_set_takeD)

lemma create_priority_csv_rows:
  assumes "create_priority_csv headers rs max_items = Inr (f, n)"
  shows "\<forall>r \<in> set (records f). r \<in> set rs \<and> (\<exists>s. priority_score r = Inr s \<and> 0 < s)"
proof -
  from assms obtain pd where pd: "score_rows rs = Inr pd"
    and f: "f = Table headers (map snd (slice_to (sort_reverse fst pd) max_items))"
    by (auto simp: create_priority_csv_def write_csv_def Let_def split: sum.splits if_splits)
  have "set (slice_to (sort_reverse fst pd) max_items) \<subseteq> set pd"
    using set_slice_to [of "sort_reverse fst pd" max_items] by (simp add: set_sort_reverse)
  with score_rows_set [OF pd] f show ?thesis by auto
qed


lemma score_rows_list:
  "score_rows rs = Inr priority_data \<Longrightarrow>
   priority_data = map (\<lambda>r. (projr (priority_score r), r))
                       (filter (\<lambda>r. 0 < projr (priority_score r)) rs)"
proof (induction rs arbitrary: priority_data)
  case Nil
  then show ?case by simp
next
  case (Cons r rs)
  from Cons.prems obtain s ps where s: "priority_score r = Inr s" and ps: "score_rows rs = Inr ps"
    and pd: "priority_data = (if s > 0 then (s, r) # ps else ps)"
    by (auto split: sum.splits)
  from Cons.IH [OF ps] s pd show ?case by auto
qed

lemma score_rows_total:
  "list_all (\<lambda>r. map_of r str_name \<noteq> None \<and> map_of r str_address \<noteq> None) rs \<Longrightarrow>
   \<exists>priority_data. score_rows rs = Inr priority_data"
proof (induction rs)
  case Nil
  then show ?case by simp
next
  case (Cons r rs)
  then obtain ps where ps: "score_rows rs = Inr ps" by auto
  from Cons.prems obtain name address where "map_of r str_name = Some name"
    "map_of r str_address = Some address" by auto
  from priority_score_eq [OF this] obtain s where "priority_score r = Inr s" by blast
  with ps show ?case by simp
qed

lemma mset_sort_reverse: "mset (sort_reverse f xs) = mset xs"
  by (simp add: sort_reverse_def)

lemma sorted_sort_reverse: "sorted_wrt (\<lambda>a b. f b \<le> f a) (sort_reverse f xs)"
proof -
  have "sorted (map f (sort_key f (rev xs)))" by simp
  then have "sorted_wrt (\<lambda>a b. f a \<le> f b) (sort_key f (rev xs))"
    by (simp add: sorted_map)
  then show ?thesis
    by (simp add: sort_reverse_def sorted_wrt_rev)
qed

lemma stable_sort_reverse:
  "filter (\<lambda>x. f x = k) (sort_reverse f xs) = filter (\<lambda>x. f x = k) xs"
proof -
  have "filter (\<lambda>x. f x = k) (sort_reverse f xs) = rev (filter (\<lambda>x. f x = k) (sort_key f (rev xs)))"
    by (simp add: sort_reverse_def rev_filter)
  also have "\<dots> = rev (filter (\<lambda>x. f x = k) (rev xs))"
    by (simp add: sort_key_stable)
  also have "\<dots> = filter (\<lambda>x. f x = k) xs"
    by (simp add: rev_filter)
  finally show ?thesis .
qed

lemma slice_to_nonneg: "0 \<le> n \<Longrightarrow> slice_to xs n = take (nat n) xs"
  by (simp add: slice_to_def)

lemma sorted_wrt_take_drop:
  assumes "sorted_wrt P xs" "x \<in> set (take n xs)" "y \<in> set (drop n xs)"
  shows "P x y"
proof -
  have "sorted_wrt P (take n xs @ drop n xs)" using assms(1) by simp
  with assms(2,3) show ?thesis unfolding sorted_wrt_append by blast
qed

subsection \<open>The scores of the example rows\<close>

lemmas ex_rows_defs = ex_headers_def ex_name_tocho_def ex_addr_chiyoda_def ex_name_hachioji_eki_def
  ex_addr_hachioji_def ex_name_oji_eki_def ex_addr_kita_minato_def ex_row_chiyoda_def
  ex_row_hachioji_def ex_row_kita_minato_def ex_name_tokyo_eki_def ex_row_tokyo_eki_def
  ex_name_center_def ex_row_center_def ex_name_tower_def ex_addr_minato_def ex_row_tower_def

lemmas priority_defs = priority_score_def getitem_def str_name_def str_address_def EKI_def
  str_Station_def YAMANOTE_INNER_WARDS_def public_keywords_def landmark_keywords_def ascii_def

lemma ex_score_tokyo_eki: "priority_score ex_row_tokyo_eki = Inr 170"
  by (simp add: priority_defs ex_rows_defs)

lemma ex_score_center: "priority_score ex_row_center = Inr 0"
  by (simp add: priority_defs ex_rows_defs)

lemma ex_score_chiyoda: "priority_score ex_row_chiyoda = Inr 70"
  by (simp add: priority_defs ex_rows_defs)

lemma ex_score_hachioji: "priority_score ex_row_hachioji = Inr 100"
  by (simp add: priority_defs ex_rows_defs)

lemma ex_score_tower: "priority_score ex_row_tower = Inr 70"
  by (simp add: priority_defs ex_rows_defs)

lemma ex_score_kita_minato: "priority_score ex_row_kita_minato = Inr 150"
  by (simp add: priority_defs ex_rows_defs)

lemmas ex_scores = ex_score_tokyo_eki ex_score_center ex_score_chiyoda ex_score_hachioji
  ex_score_tower ex_score_kita_minato

lemma ex_rows_keys:
  "row_keys ex_row_chiyoda = ex_headers" "row_keys ex_row_center = ex_headers"
  "row_keys ex_row_hachioji = ex_headers" "row_keys ex_row_tower = ex_headers"
  "row_keys ex_row_tokyo_eki = ex_headers" "row_keys ex_row_kita_minato = ex_headers"
  by (simp_all add: row_keys_def ex_headers_def ex_row_chiyoda_def ex_row_center_def
      ex_row_hachioji_def ex_row_tower_def ex_row_tokyo_eki_def ex_row_kita_minato_def)

lemma ex_create_priority_3:
  "create_priority_csv ex_headers [ex_row_tokyo_eki, ex_row_center, ex_row_chiyoda] 1000
     = Inr (Table ex_headers [ex_row_tokyo_eki, ex_row_chiyoda], 2)"
  by (simp add: create_priority_csv_def ex_scores sort_reverse_def slice_to_def write_csv_def
      ex_rows_keys Let_def list_all_iff)

lemma ex_create_priority_6:
  "create_priority_csv ex_headers ex_priority_rows 4
     = Inr (Table ex_headers [ex_row_tokyo_eki, ex_row_kita_minato, ex_row_hachioji, ex_row_chiyoda], 4)"
  by (simp add: ex_priority_rows_def create_priority_csv_def ex_scores sort_reverse_def slice_to_def
      write_csv_def ex_rows_keys Let_def list_all_iff)

subsection \<open>The score is additive\<close>

text \<open>
  Claim C2. For a row with a name and an address, the priority score is the sum of 100
  if the name contains a station keyword (eki or Station), 50 (once) if the address
  contains one of the 12 inner wards, 30 if the name contains a public-facility
  keyword and 20 if it contains a landmark keyword. Every row of the output has a
  positive score, so a row of score 0 is not in the output. The row named Tokyo-eki in
  Chiyoda-ku scores 170.
\<close>

theorem priority_score_additive:
  "(map_of r str_name = Some name \<and> map_of r str_address = Some address \<longrightarrow>
      priority_score r =
        Inr ((if str_in EKI name \<or> str_in str_Station name then 100 else 0)
           + (if \<exists>ward \<in> set YAMANOTE_INNER_WARDS. str_in ward address then 50 else 0)
           + (if \<exists>keyword \<in> set public_keywords. str_in keyword name then 30 else 0)
           + (if \<exists>keyword \<in> set landmark_keywords. str_in keyword name then 20 else 0)))
   \<and> length YAMANOTE_INNER_WARDS = 12
   \<and> (create_priority_csv headers rs max_items = Inr (f, n) \<longrightarrow>
        (\<forall>r \<in> set (records f). r \<in> set rs \<and> (\<exists>s. priority_score r = Inr s \<and> 0 < s))
      \<and> (\<forall>r \<in> set rs. priority_score r = Inr 0 \<longrightarrow> r \<notin> set (records f)))
   \<and> priority_score ex_row_tokyo_eki = Inr 170"
proof (intro conjI impI)
  assume "map_of r str_name = Some name \<and> map_of r str_address = Some address"
  then show "priority_score r =
        Inr ((if str_in EKI name \<or> str_in str_Station name then 100 else 0)
           + (if \<exists>ward \<in> set YAMANOTE_INNER_WARDS. str_in ward address then 50 else 0)
           + (if \<exists>keyword \<in> set public_keywords. str_in keyword name then 30 else 0)
           + (if \<exists>keyword \<in> set landmark_keywords. str_in keyword name then 20 else 0))"
    using priority_score_eq by blast
next
  show "length YAMANOTE_INNER_WARDS = 12" by (simp add: YAMANOTE_INNER_WARDS_def)
next
  assume c: "create_priority_csv headers rs max_items = Inr (f, n)"
  from create_priority_csv_rows [OF c]
  show "\<forall>r \<in> set (records f). r \<in> set rs \<and> (\<exists>s. priority_score r = Inr s \<and> 0 < s)" .
next
  assume c: "create_priority_csv headers rs max_items = Inr (f, n)"
  from create_priority_csv_rows [OF c]
  show "\<forall>r \<in> set rs. priority_score r = Inr 0 \<longrightarrow> r \<notin> set (records f)" by auto
next
  show "priority_score ex_row_tokyo_eki = Inr 170" by (rule ex_score_tokyo_eki)
qed

theorem priority_score_additive_witness:
  "priority_score ex_row_tokyo_eki = Inr (100 + 50 + 0 + 20)
   \<and> priority_score ex_row_center = Inr 0
   \<and> create_priority_csv ex_headers [ex_row_tokyo_eki, ex_row_center, ex_row_chiyoda] 1000
        = Inr (Table ex_headers [ex_row_tokyo_eki, ex_row_chiyoda], 2)
   \<and> ex_row_center \<notin> set (records (Table ex_headers [ex_row_tokyo_eki, ex_row_chiyoda]))"
proof -
  have keys: "map_of ex_row_tokyo_eki str_name = Some ex_name_tokyo_eki
      \<and> map_of ex_row_tokyo_eki str_address = Some ex_addr_chiyoda"
    by (simp add: ex_row_tokyo_eki_def str_name_def str_address_def ascii_def)
  have rules: "(if str_in EKI ex_name_tokyo_eki \<or> str_in str_Station ex_name_tokyo_eki then 100 else 0) = (100::int)
      \<and> (if \<exists>ward \<in> set YAMANOTE_INNER_WARDS. str_in ward ex_addr_chiyoda then 50 else 0) = (50::int)
      \<and> (if \<exists>keyword \<in> set public_keywords. str_in keyword ex_name_tokyo_eki then 30 else 0) = (0::int)
      \<and> (if \<exists>keyword \<in> set landmark_keywords. str_in keyword ex_name_tokyo_eki then 20 else 0) = (20::int)"
    by (simp add: EKI_def str_Station_def YAMANOTE_INNER_WARDS_def public_keywords_def
        landmark_keywords_def ex_name_tokyo_eki_def ex_addr_chiyoda_def ascii_def)
  note inst = priority_score_additive [of ex_row_tokyo_eki ex_name_tokyo_eki ex_addr_chiyoda
      ex_headers "[ex_row_tokyo_eki, ex_row_center, ex_row_chiyoda]" 1000
      "Table ex_headers [ex_row_tokyo_eki, ex_row_chiyoda]" 2]
  from inst [THEN conjunct1, THEN mp, OF keys] rules
  have one: "priority_score ex_row_tokyo_eki = Inr (100 + 50 + 0 + 20)" by simp
  have mem: "ex_row_center \<in> set [ex_row_tokyo_eki, ex_row_center, ex_row_chiyoda]" by simp
  note excl = inst [THEN conjunct2, THEN conjunct2, THEN conjunct1, THEN mp,
      OF ex_create_priority_3, THEN conjunct2]
  from excl [THEN bspec, OF mem, THEN mp, OF ex_score_center]
  have two: "ex_row_center \<notin> set (records (Table ex_headers [ex_row_tokyo_eki, ex_row_chiyoda]))" .
  from one ex_score_center ex_create_priority_3 two show ?thesis by (intro conjI)
qed

subsection \<open>The output is the stable descending sort, truncated\<close>

text \<open>
  Claim C3. For a maximum count \<open>max_items\<close> that is not negative (a negative bound of a
  Python slice counts from the end), the rows written are the first \<open>max_items\<close> rows of
  a list \<open>ranked\<close> that is a permutation of the qualifying rows (those of positive score,
  in input order), is sorted by descending score, and keeps the input order among the
  rows of each score. So the output has at most \<open>max_items\<close> rows, exactly
  \<open>max_items\<close> when more rows qualify, and no row left out has a higher score than a
  row written. The filter succeeds on every input whose rows have a name, an address and
  only keys of the header.
\<close>

theorem priority_sort_truncate:
  "(create_priority_csv headers rs max_items = Inr (f, n) \<and> 0 \<le> max_items \<longrightarrow>
      (\<exists>qualifying ranked.
          qualifying = map (\<lambda>r. (projr (priority_score r), r))
                           (filter (\<lambda>r. 0 < projr (priority_score r)) rs)
        \<and> mset ranked = mset qualifying
        \<and> sorted_wrt (\<lambda>a b. fst b \<le> fst a) ranked
        \<and> (\<forall>k. filter (\<lambda>x. fst x = k) ranked = filter (\<lambda>x. fst x = k) qualifying)
        \<and> records f = map snd (take (nat max_items) ranked)
        \<and> (\<forall>x \<in> set (take (nat max_items) ranked). \<forall>y \<in> set (drop (nat max_items) ranked). fst y \<le> fst x)
        \<and> n = length (records f)
        \<and> int n \<le> max_items
        \<and> n = min (nat max_items) (length qualifying)
        \<and> (max_items < int (length qualifying) \<longrightarrow> int n = max_items)))
   \<and> (list_all (\<lambda>r. map_of r str_name \<noteq> None \<and> map_of r str_address \<noteq> None
                     \<and> list_all (\<lambda>k. k \<in> set headers) (row_keys r)) rs \<longrightarrow>
        (\<exists>f n. create_priority_csv headers rs max_items = Inr (f, n)))"
proof (intro conjI impI)
  assume a: "create_priority_csv headers rs max_items = Inr (f, n) \<and> 0 \<le> max_items"
  then obtain pd where pd: "score_rows rs = Inr pd"
    and f: "f = Table headers (map snd (slice_to (sort_reverse fst pd) max_items))"
    and n: "n = length (map snd (slice_to (sort_reverse fst pd) max_items))"
    by (auto simp: create_priority_csv_def write_csv_def Let_def split: sum.splits if_splits)
  let ?ranked = "sort_reverse fst pd"
  from a have sl: "slice_to ?ranked max_items = take (nat max_items) ?ranked"
    by (simp add: slice_to_nonneg)
  have len: "length ?ranked = length pd"
    using mset_sort_reverse [of fst pd] by (metis size_mset)
  have 1: "pd = map (\<lambda>r. (projr (priority_score r), r)) (filter (\<lambda>r. 0 < projr (priority_score r)) rs)"
    by (rule score_rows_list [OF pd])
  have 2: "mset ?ranked = mset pd" by (rule mset_sort_reverse)
  have 3: "sorted_wrt (\<lambda>a b. fst b \<le> fst a) ?ranked" by (rule sorted_sort_reverse)
  have 4: "\<forall>k. filter (\<lambda>x. fst x = k) ?ranked = filter (\<lambda>x. fst x = k) pd"
    by (simp add: stable_sort_reverse)
  have 5: "records f = map snd (take (nat max_items) ?ranked)"
    using f sl by simp
  have 6: "\<forall>x \<in> set (take (nat max_items) ?ranked). \<forall>y \<in> set (drop (nat max_items) ?ranked). fst y \<le> fst x"
    using sorted_wrt_take_drop [OF 3] by blast
  have 7: "n = length (records f)" using n f by simp
  have 8: "n = min (nat max_items) (length pd)"
    using n sl len by simp
  from a have nonneg: "0 \<le> max_items" by simp
  have 9: "int n \<le> max_items" using 8 nonneg by linarith
  have 10: "max_items < int (length pd) \<longrightarrow> int n = max_items"
    using 8 nonneg by linarith
  from 1 2 3 4 5 6 7 8 9 10
  show "\<exists>qualifying ranked.
          qualifying = map (\<lambda>r. (projr (priority_score r), r))
                           (filter (\<lambda>r. 0 < projr (priority_score r)) rs)
        \<and> mset ranked = mset qualifying
        \<and> sorted_wrt (\<lambda>a b. fst b \<le> fst a) ranked
        \<and> (\<forall>k. filter (\<lambda>x. fst x = k) ranked = filter (\<lambda>x. fst x = k) qualifying)
        \<and> records f = map snd (take (nat max_items) ranked)
        \<and> (\<forall>x \<in> set (take (nat max_items) ranked). \<forall>y \<in> set (drop (nat max_items) ranked). fst y \<le> fst x)
        \<and> n = length (records f)
        \<and> int n \<le> max_items
        \<and> n = min (nat max_items) (length qualifying)
        \<and> (max_items < int (length qualifying) \<longrightarrow> int n = max_items)"
    by blast
next
  assume ok: "list_all (\<lambda>r. map_of r str_name \<noteq> None \<and> map_of r str_address \<noteq> None
                     \<and> list_all (\<lambda>k. k \<in> set headers) (row_keys r)) rs"
  then have "list_all (\<lambda>r. map_of r str_name \<noteq> None \<and> map_of r str_address \<noteq> None) rs"
    by (simp add: list_all_iff)
  from score_rows_total [OF this] obtain pd where pd: "score_rows rs = Inr pd" by blast
  have "set (slice_to (sort_reverse fst pd) max_items) \<subseteq> set pd"
    using set_slice_to [of "sort_reverse fst pd" max_items] by (simp add: set_sort_reverse)
  with score_rows_set [OF pd]
  have "\<forall>r \<in> set (map snd (slice_to (sort_reverse fst pd) max_items)). r \<in> set rs" by auto
  with ok have "list_all (\<lambda>r. list_all (\<lambda>k. k \<in> set headers) (row_keys r))
      (map snd (slice_to (sort_reverse fst pd) max_items))"
    unfolding list_all_iff by blast
  with pd show "\<exists>f n. create_priority_csv headers rs max_items = Inr (f, n)"
    by (simp add: create_priority_csv_def write_csv_def Let_def)
qed


theorem priority_sort_truncate_witness:
  "create_priority_csv ex_headers ex_priority_rows 4
     = Inr (Table ex_headers [ex_row_tokyo_eki, ex_row_kita_minato, ex_row_hachioji, ex_row_chiyoda], 4)
   \<and> map (\<lambda>r. (projr (priority_score r), r)) (filter (\<lambda>r. 0 < projr (priority_score r)) ex_priority_rows)
     = [(70, ex_row_chiyoda), (100, ex_row_hachioji), (70, ex_row_tower), (170, ex_row_tokyo_eki),
        (150, ex_row_kita_minato)]
   \<and> (\<exists>ranked. mset ranked = mset [(70, ex_row_chiyoda), (100, ex_row_hachioji), (70, ex_row_tower),
                                   (170, ex_row_tokyo_eki), (150::int, ex_row_kita_minato)]
        \<and> sorted_wrt (\<lambda>a b. fst b \<le> fst a) ranked
        \<and> filter (\<lambda>x. fst x = 70) ranked = [(70, ex_row_chiyoda), (70, ex_row_tower)]
        \<and> [ex_row_tokyo_eki, ex_row_kita_minato, ex_row_hachioji, ex_row_chiyoda] = map snd (take 4 ranked))"
proof -
  let ?f = "Table ex_headers [ex_row_tokyo_eki, ex_row_kita_minato, ex_row_hachioji, ex_row_chiyoda]"
  let ?q = "[(70, ex_row_chiyoda), (100, ex_row_hachioji), (70, ex_row_tower), (170, ex_row_tokyo_eki),
        (150::int, ex_row_kita_minato)]"
  have q: "map (\<lambda>r. (projr (priority_score r), r)) (filter (\<lambda>r. 0 < projr (priority_score r)) ex_priority_rows) = ?q"
    by (simp add: ex_priority_rows_def ex_scores)
  have hyp: "create_priority_csv ex_headers ex_priority_rows 4 = Inr (?f, 4) \<and> (0::int) \<le> 4"
    using ex_create_priority_6 by simp
  from priority_sort_truncate [of ex_headers ex_priority_rows 4 ?f 4, THEN conjunct1, THEN mp, OF hyp]
  obtain qualifying ranked where
    ql: "qualifying = map (\<lambda>r. (projr (priority_score r), r)) (filter (\<lambda>r. 0 < projr (priority_score r)) ex_priority_rows)"
    and ms: "mset ranked = mset qualifying" and so: "sorted_wrt (\<lambda>a b. fst b \<le> fst a) ranked"
    and st: "\<forall>k. filter (\<lambda>x. fst x = k) ranked = filter (\<lambda>x. fst x = k) qualifying"
    and re: "records ?f = map snd (take (nat 4) ranked)"
    by (elim exE conjE)
  from ql q have qq: "qualifying = ?q" by simp
  from st have "filter (\<lambda>x. fst x = 70) ranked = filter (\<lambda>x. fst x = 70) qualifying" by (rule spec)
  with qq have s70: "filter (\<lambda>x. fst x = 70) ranked = [(70, ex_row_chiyoda), (70, ex_row_tower)]" by simp
  from re have re': "[ex_row_tokyo_eki, ex_row_kita_minato, ex_row_hachioji, ex_row_chiyoda] = map snd (take 4 ranked)"
    by simp
  from ms qq have ms': "mset ranked = mset ?q" by simp
  from ms' so s70 re' have "\<exists>ranked. mset ranked = mset ?q \<and> sorted_wrt (\<lambda>a b. fst b \<le> fst a) ranked
        \<and> filter (\<lambda>x. fst x = 70) ranked = [(70, ex_row_chiyoda), (70, ex_row_tower)]
        \<and> [ex_row_tokyo_eki, ex_row_kita_minato, ex_row_hachioji, ex_row_chiyoda] = map snd (take 4 ranked)"
    by (intro exI [of _ ranked] conjI)
  with q ex_create_priority_6 show ?thesis by (intro conjI)
qed

section \<open>The merge of the integrated lists\<close>

subsection \<open>The example rows\<close>

lemmas pin_defs = ex_pin_a_def ex_pin_b_def ex_pin_c_def ex_pin_d_def ex_pin_bad_lat_def
  ex_pin_bad_lng_def ex_pin_headers_def

lemmas coord_defs = coord_def getitem_def str_lat_def str_lng_def ascii_def dec_float_def
  digit_value_def Let_def

lemma ex_coords_a: "coord dec_float ex_pin_a str_lat = Inr (3568950 / 100000)"
  "coord dec_float ex_pin_a str_lng = Inr (13969170 / 100000)"
  by (simp_all add: coord_defs ex_pin_a_def)

lemma ex_coords_b: "coord dec_float ex_pin_b str_lat = Inr (3568950 / 100000)"
  "coord dec_float ex_pin_b str_lng = Inr (13969170 / 100000)"
  by (simp_all add: coord_defs ex_pin_b_def)

lemma ex_coords_c: "coord dec_float ex_pin_c str_lat = Inr (3568961 / 100000)"
  "coord dec_float ex_pin_c str_lng = Inr (13969170 / 100000)"
  by (simp_all add: coord_defs ex_pin_c_def)

lemma ex_coords_d: "coord dec_float ex_pin_d str_lat = Inr (3568959 / 100000)"
  "coord dec_float ex_pin_d str_lng = Inr (13969179 / 100000)"
  by (simp_all add: coord_defs ex_pin_d_def)

lemma ex_coords_bad_lat: "coord dec_float ex_pin_bad_lat str_lat = Inl ValueError"
  "coord dec_float ex_pin_bad_lat str_lng = Inr (13969170 / 100000)"
  by (simp_all add: coord_defs ex_pin_bad_lat_def)

lemma ex_coords_bad_lng: "coord dec_float ex_pin_bad_lng str_lat = Inr (3570000 / 100000)"
  "coord dec_float ex_pin_bad_lng str_lng = Inl ValueError"
  by (simp_all add: coord_defs ex_pin_bad_lng_def)

lemmas ex_coords = ex_coords_a ex_coords_b ex_coords_c ex_coords_d ex_coords_bad_lat ex_coords_bad_lng


lemma ex_merge_bad_first: "merge_rows dec_float [] [ex_pin_bad_lat] = Inr [ex_pin_bad_lat]"
  by (simp add: merge_row_def)

lemma ex_merge_bad_lng: "merge_rows dec_float [] [ex_pin_a, ex_pin_bad_lng] = Inr [ex_pin_a, ex_pin_bad_lng]"
  by (simp add: merge_row_def ex_coords)

lemma ex_merge_abort: "merge_rows dec_float [] [ex_pin_a, ex_pin_bad_lat, ex_pin_c] = Inl ValueError"
  by (simp add: merge_row_def ex_coords)


lemma ex_pin_keys:
  "row_keys ex_pin_a = ex_pin_headers" "row_keys ex_pin_c = ex_pin_headers"
  "row_keys ex_pin_bad_lat = ex_pin_headers"
  by (simp_all add: row_keys_def pin_defs)

lemma ex_main_bad_first:
  "main_integrated dec_float [ex_pin_bad_lat] [] [] []
     = Inr [(integrated_public_path, Table ex_pin_headers [ex_pin_bad_lat]),
            (integrated_station_path, Empty_file)]"
  by (simp add: main_integrated_def integrate_def merge_row_def output_integrated_def
      write_integrated_def write_csv_def ex_pin_keys list_all_iff)

lemma ex_main_abort:
  "main_integrated dec_float [ex_pin_a, ex_pin_bad_lat, ex_pin_c] [] [] [] = Inl ValueError"
  by (simp add: main_integrated_def integrate_def merge_row_def ex_coords)

lemma ex_output_ac:
  "output_integrated [ex_pin_a, ex_pin_c] []
     = Inr [(integrated_public_path, Table ex_pin_headers [ex_pin_a, ex_pin_c]),
            (integrated_station_path, Empty_file)]"
  by (simp add: output_integrated_def write_integrated_def write_csv_def ex_pin_keys list_all_iff)

subsection \<open>The loop against the relation of the specification\<close>










lemma is_duplicate_parses_lng:
  "is_duplicate pyfloat target_list r = Inr dup \<Longrightarrow> e \<in> set target_list \<Longrightarrow>
   coord pyfloat e str_lat = Inr elat \<Longrightarrow> coord pyfloat r str_lat = Inr rlat \<Longrightarrow>
   \<bar>elat - rlat\<bar> < 1 / 10000 \<Longrightarrow> \<exists>rlng. coord pyfloat r str_lng = Inr rlng"
proof (induction target_list)
  case Nil
  then show ?case by simp
next
  case (Cons x xs)
  from Cons.prems(1) obtain xlat where xlat: "coord pyfloat x str_lat = Inr xlat"
    by (auto split: sum.splits)
  show ?case
  proof (cases "\<bar>xlat - rlat\<bar> < 1 / 10000")
    case True
    with Cons.prems(1,4) xlat show ?thesis by (auto split: sum.splits)
  next
    case False
    with Cons.prems(1,4) xlat have rest: "is_duplicate pyfloat xs r = Inr dup" by simp
    from False Cons.prems(3,5) xlat have "e \<noteq> x" by auto
    with Cons.prems(2) have "e \<in> set xs" by simp
    from Cons.IH [OF rest this Cons.prems(3,4,5)] show ?thesis .
  qed
qed

lemma merge_row_bad_lat:
  assumes "target_list \<noteq> []" "isl (coord pyfloat r str_lat)"
  shows "isl (merge_row pyfloat target_list r)"
proof -
  from assms(1) obtain x xs where "target_list = x # xs" by (cases target_list) auto
  with assms(2) show ?thesis
    by (auto simp: merge_row_def isl_def split: sum.splits)
qed

lemma merge_rows_abort:
  "merge_rows pyfloat target_list rs = Inl err \<Longrightarrow> merge_rows pyfloat target_list (rs @ rs') = Inl err"
  by (induction rs arbitrary: target_list) (auto split: sum.splits)

subsection \<open>Deduplication by proximity\<close>




subsection \<open>Rows whose coordinates do not parse\<close>

text \<open>
  Claim C6, as stated, fails: a coordinate is parsed only when a comparison evaluates
  it. A row whose latitude is the text abc and that meets an empty accumulator is
  appended without any call of \<open>float\<close>, and the run writes it to the integrated file; a
  row whose longitude is the text abc is appended when no accumulated row has a latitude
  close to its own.
\<close>

theorem merge_parse_failure_counterexample:
  "coord dec_float ex_pin_bad_lat str_lat = Inl ValueError
   \<and> main_integrated dec_float [ex_pin_bad_lat] [] [] []
       = Inr [(integrated_public_path, Table ex_pin_headers [ex_pin_bad_lat]),
              (integrated_station_path, Empty_file)]
   \<and> coord dec_float ex_pin_bad_lng str_lng = Inl ValueError
   \<and> merge_rows dec_float [] [ex_pin_a, ex_pin_bad_lng] = Inr [ex_pin_a, ex_pin_bad_lng]"
  using ex_coords_bad_lat(1) ex_main_bad_first ex_coords_bad_lng(2) ex_merge_bad_lng
  by (intro conjI)

text \<open>
  Claim C6, amended. A candidate whose latitude does not parse aborts the merge whenever
  the accumulator it is compared with is not empty; a candidate that was merged with
  success while some accumulated row has a latitude within 0.0001 of its own has a
  longitude that parses. A failure of one candidate is the failure of the whole merge:
  no later row is processed, and the integrated files are written only when all four
  merges have succeeded. A candidate that meets an empty accumulator is appended
  unparsed.
\<close>

theorem merge_parse_failure:
  "(target_list \<noteq> [] \<and> isl (coord pyfloat r str_lat) \<longrightarrow> isl (merge_row pyfloat target_list r))
   \<and> (merge_row pyfloat target_list r = Inr target_list' \<and> e \<in> set target_list
        \<and> coord pyfloat e str_lat = Inr elat \<and> coord pyfloat r str_lat = Inr rlat
        \<and> \<bar>elat - rlat\<bar> < 1 / 10000 \<longrightarrow>
        \<not> isl (coord pyfloat r str_lng))
   \<and> (merge_row pyfloat target_list r = Inl err \<longrightarrow>
        merge_rows pyfloat target_list (r # rs) = Inl err)
   \<and> (merge_rows pyfloat target_list rs = Inl err \<longrightarrow>
        merge_rows pyfloat target_list (rs @ rs') = Inl err)
   \<and> (main_integrated pyfloat yamanote_public yamanote_station priority_public priority_station
          = Inr files \<longrightarrow>
        (\<exists>pub1 sta1 pub sta.
            merge_rows pyfloat [] yamanote_public = Inr pub1
          \<and> merge_rows pyfloat [] yamanote_station = Inr sta1
          \<and> merge_rows pyfloat pub1 priority_public = Inr pub
          \<and> merge_rows pyfloat sta1 priority_station = Inr sta
          \<and> output_integrated pub sta = Inr files))
   \<and> merge_row pyfloat [] r = Inr [r]"
proof (intro conjI impI)
  assume "target_list \<noteq> [] \<and> isl (coord pyfloat r str_lat)"
  then show "isl (merge_row pyfloat target_list r)" using merge_row_bad_lat by blast
next
  assume a: "merge_row pyfloat target_list r = Inr target_list' \<and> e \<in> set target_list
        \<and> coord pyfloat e str_lat = Inr elat \<and> coord pyfloat r str_lat = Inr rlat
        \<and> \<bar>elat - rlat\<bar> < 1 / 10000"
  then obtain dup where "is_duplicate pyfloat target_list r = Inr dup"
    by (auto simp: merge_row_def split: sum.splits)
  from is_duplicate_parses_lng [OF this] a obtain rlng where "coord pyfloat r str_lng = Inr rlng"
    by blast
  then show "\<not> isl (coord pyfloat r str_lng)" by simp
next
  assume "merge_row pyfloat target_list r = Inl err"
  then show "merge_rows pyfloat target_list (r # rs) = Inl err" by simp
next
  assume "merge_rows pyfloat target_list rs = Inl err"
  then show "merge_rows pyfloat target_list (rs @ rs') = Inl err" by (rule merge_rows_abort)
next
  assume "main_integrated pyfloat yamanote_public yamanote_station priority_public priority_station
          = Inr files"
  then show "\<exists>pub1 sta1 pub sta.
            merge_rows pyfloat [] yamanote_public = Inr pub1
          \<and> merge_rows pyfloat [] yamanote_station = Inr sta1
          \<and> merge_rows pyfloat pub1 priority_public = Inr pub
          \<and> merge_rows pyfloat sta1 priority_station = Inr sta
          \<and> output_integrated pub sta = Inr files"
    by (auto simp: main_integrated_def integrate_def split: sum.splits)
next
  show "merge_row pyfloat [] r = Inr [r]" by (simp add: merge_row_def)
qed

theorem merge_parse_failure_witness:
  "isl (coord dec_float ex_pin_bad_lat str_lat)
   \<and> isl (merge_row dec_float [ex_pin_a] ex_pin_bad_lat)
   \<and> merge_rows dec_float [ex_pin_a] (ex_pin_bad_lat # [ex_pin_c]) = Inl ValueError
   \<and> merge_rows dec_float [] ([ex_pin_a, ex_pin_bad_lat] @ [ex_pin_c]) = Inl ValueError
   \<and> main_integrated dec_float [ex_pin_a, ex_pin_bad_lat, ex_pin_c] [] [] [] = Inl ValueError"
proof -
  note inst = merge_parse_failure [where pyfloat = dec_float and r = ex_pin_bad_lat and err = ValueError]
  have bad: "isl (coord dec_float ex_pin_bad_lat str_lat)" by (simp add: ex_coords)
  then have hyp: "[ex_pin_a] \<noteq> [] \<and> isl (coord dec_float ex_pin_bad_lat str_lat)" by simp
  note one = inst [where target_list = "[ex_pin_a]", THEN conjunct1, THEN mp, OF hyp]
  have step: "merge_row dec_float [ex_pin_a] ex_pin_bad_lat = Inl ValueError"
    by (simp add: merge_row_def ex_coords)
  note two = inst [where target_list = "[ex_pin_a]" and rs = "[ex_pin_c]",
      THEN conjunct2, THEN conjunct2, THEN conjunct1, THEN mp, OF step]
  have pre: "merge_rows dec_float [] [ex_pin_a, ex_pin_bad_lat] = Inl ValueError"
    by (simp add: merge_row_def ex_coords)
  note three = inst [where target_list = "[]" and rs = "[ex_pin_a, ex_pin_bad_lat]" and rs' = "[ex_pin_c]",
      THEN conjunct2, THEN conjunct2, THEN conjunct2, THEN conjunct1, THEN mp, OF pre]
  from bad one two three ex_main_abort show ?thesis by (intro conjI)
qed

subsection \<open>The integrated output files\<close>



section \<open>Region splitter: classification and the aggregated files\<close>

lemma find_first_in:
  "find (\<lambda>n. str_in n address) names = Some n \<longleftrightarrow> first_in names address n"
  by (auto simp: find_Some_iff first_in_def)

lemma find_none_in:
  "find (\<lambda>n. str_in n address) names = None \<longleftrightarrow> (\<forall>n \<in> set names. \<not> str_in n address)"
  by (auto simp: find_None_iff)

lemma find_some_in:
  assumes "\<exists>n \<in> set names. str_in n address"
  shows "\<exists>n. find (\<lambda>n. str_in n address) names = Some n"
  using assms by (cases "find (\<lambda>n. str_in n address) names") (auto simp: find_None_iff)

lemma extract_area_23ku:
  assumes "\<exists>n \<in> set wards_23ku. str_in n address"
  shows "\<exists>n. first_in wards_23ku address n \<and> extract_area_from_address address = (ascii ''23ku'', n)"
proof -
  from find_some_in [OF assms] obtain n
    where n: "find (\<lambda>n. str_in n address) wards_23ku = Some n" by blast
  then have "extract_area_from_address address = (ascii ''23ku'', n)"
    by (simp add: extract_area_from_address_def)
  with n show ?thesis by (auto simp: find_first_in)
qed

lemma extract_area_tama:
  assumes "\<forall>n \<in> set wards_23ku. \<not> str_in n address" "\<exists>n \<in> set TAMA_CITIES. str_in n address"
  shows "\<exists>n. first_in TAMA_CITIES address n
           \<and> extract_area_from_address address = (ascii ''tama_city'', n)"
proof -
  from find_some_in [OF assms(2)] obtain n
    where n: "find (\<lambda>n. str_in n address) TAMA_CITIES = Some n" by blast
  with assms(1) have "extract_area_from_address address = (ascii ''tama_city'', n)"
    by (simp add: extract_area_from_address_def find_none_in [symmetric])
  with n show ?thesis by (auto simp: find_first_in)
qed

lemma extract_area_nishi:
  assumes "\<forall>n \<in> set wards_23ku. \<not> str_in n address" "\<forall>n \<in> set TAMA_CITIES. \<not> str_in n address"
    "\<exists>n \<in> set NISHI_TAMA_GUN. str_in n address"
  shows "\<exists>n. first_in NISHI_TAMA_GUN address n
           \<and> extract_area_from_address address = (ascii ''nishi_tama'', n)"
proof -
  from find_some_in [OF assms(3)] obtain n
    where n: "find (\<lambda>n. str_in n address) NISHI_TAMA_GUN = Some n" by blast
  with assms(1,2) have "extract_area_from_address address = (ascii ''nishi_tama'', n)"
    by (simp add: extract_area_from_address_def find_none_in [symmetric])
  with n show ?thesis by (auto simp: find_first_in)
qed

lemma extract_area_island:
  assumes "\<forall>n \<in> set wards_23ku. \<not> str_in n address" "\<forall>n \<in> set TAMA_CITIES. \<not> str_in n address"
    "\<forall>n \<in> set NISHI_TAMA_GUN. \<not> str_in n address" "\<exists>n \<in> set ISLAND_AREAS. str_in n address"
  shows "\<exists>n. first_in ISLAND_AREAS address n
           \<and> extract_area_from_address address = (ascii ''island'', n)"
proof -
  from find_some_in [OF assms(4)] obtain n
    where n: "find (\<lambda>n. str_in n address) ISLAND_AREAS = Some n" by blast
  with assms(1,2,3) have "extract_area_from_address address = (ascii ''island'', n)"
    by (simp add: extract_area_from_address_def find_none_in [symmetric])
  with n show ?thesis by (auto simp: find_first_in)
qed

lemma extract_area_other:
  assumes "\<forall>n \<in> set wards_23ku. \<not> str_in n address" "\<forall>n \<in> set TAMA_CITIES. \<not> str_in n address"
    "\<forall>n \<in> set NISHI_TAMA_GUN. \<not> str_in n address" "\<forall>n \<in> set ISLAND_AREAS. \<not> str_in n address"
  shows "extract_area_from_address address = (ascii ''other'', str_sonota)"
  using assms by (simp add: extract_area_from_address_def find_none_in [symmetric])

lemma read_major_cities_data:
  "snd (read_major_cities tama_dir cities (headers, d)) =
     d @ concat (map (\<lambda>city. case map_of tama_dir (city @ ascii ''.csv'') of
                            None \<Rightarrow> []
                          | Some f \<Rightarrow> snd (read_csv f)) cities)"
  by (induction cities arbitrary: headers d) (auto split: option.splits)

lemma read_listed_data:
  "snd (read_listed listing (headers, d)) =
     d @ concat (map (\<lambda>(name, f). snd (read_csv f))
                 (filter (\<lambda>(name, f). suffix (ascii ''.csv'') name) listing))"
  by (induction listing arbitrary: headers d) auto

lemma write_if_data_written:
  assumes "write_if_data p headers d = Inr written"
  shows "written = [] \<or> (d \<noteq> [] \<and> truthy headers \<and> written = [(p, Table (the headers) d)])"
  using assms
  by (auto simp: write_if_data_def write_csv_def split: if_splits sum.splits)


lemma create_tama_written:
  assumes "create_tama_integrated_files base tama_dir island_dir nishi_tama_dir = Inr written"
  shows "\<exists>w1 w2 w3. written = w1 @ w2 @ w3
     \<and> (w1 = [] \<or> (major_data tama_dir \<noteq> []
           \<and> (\<exists>h. w1 = [(lightweight_path base (ascii ''tama_major_cities.csv''),
                           Table h (major_data tama_dir))])))
     \<and> (w2 = [] \<or> (listed_data island_dir \<noteq> []
           \<and> (\<exists>h. w2 = [(lightweight_path base (ascii ''islands_integrated.csv''),
                           Table h (listed_data island_dir))])))
     \<and> (w3 = [] \<or> (listed_data nishi_tama_dir \<noteq> []
           \<and> (\<exists>h. w3 = [(lightweight_path base (ascii ''nishi_tama_integrated.csv''),
                           Table h (listed_data nishi_tama_dir))])))"
proof -
  obtain h1 d1 where r1: "read_major_cities tama_dir major_cities (None, []) = (h1, d1)"
    by (cases "read_major_cities tama_dir major_cities (None, [])") auto
  obtain h2 d2 where r2: "read_listed island_dir (h1, []) = (h2, d2)"
    by (cases "read_listed island_dir (h1, [])") auto
  obtain h3 d3 where r3: "read_listed nishi_tama_dir (h2, []) = (h3, d3)"
    by (cases "read_listed nishi_tama_dir (h2, [])") auto
  have d1: "d1 = major_data tama_dir"
    using read_major_cities_data [of tama_dir major_cities None "[]"] r1
    by (simp add: major_data_def)
  have d2: "d2 = listed_data island_dir"
    using read_listed_data [of island_dir h1 "[]"] r2 by (simp add: listed_data_def)
  have d3: "d3 = listed_data nishi_tama_dir"
    using read_listed_data [of nishi_tama_dir h2 "[]"] r3 by (simp add: listed_data_def)
  from assms r1 r2 r3 obtain w1 w2 w3 where
    w1: "write_if_data (lightweight_path base (ascii ''tama_major_cities.csv'')) h1 d1 = Inr w1"
    and w2: "write_if_data (lightweight_path base (ascii ''islands_integrated.csv'')) h2 d2 = Inr w2"
    and w3: "write_if_data (lightweight_path base (ascii ''nishi_tama_integrated.csv'')) h3 d3 = Inr w3"
    and w: "written = w1 @ w2 @ w3"
    by (auto simp: create_tama_integrated_files_def split: sum.splits)
  from write_if_data_written [OF w1] write_if_data_written [OF w2] write_if_data_written [OF w3]
    w d1 d2 d3
  show ?thesis by blast
qed

lemma read_major_cities_headers:
  assumes "uniform_dir h tama_dir" "headers = None \<or> headers = Some h"
  shows "fst (read_major_cities tama_dir cities (headers, d)) =
     (if headers = None \<and> (\<exists>city \<in> set cities. map_of tama_dir (city @ ascii ''.csv'') \<noteq> None)
      then Some h else headers)"
  using assms(2)
proof (induction cities arbitrary: headers d)
  case Nil
  then show ?case by simp
next
  case (Cons city cities)
  show ?case
  proof (cases "map_of tama_dir (city @ ascii ''.csv'')")
    case None
    with Cons show ?thesis by simp
  next
    case (Some f)
    then have "(city @ ascii ''.csv'', f) \<in> set tama_dir" by (rule map_of_SomeD)
    with assms(1) obtain rs where "f = Table h rs"
      by (auto simp: uniform_dir_def list_all_iff split: csv_file.splits)
    then have f: "fst (read_csv f) = Some h" by (simp add: read_csv_def)
    have "(if headers = None then fst (read_csv f) else headers) = Some h"
      using Cons.prems f by auto
    with Cons.IH [of "Some h"] Some Cons.prems show ?thesis by auto
  qed
qed

lemma read_listed_headers:
  assumes "uniform_dir h listing" "headers = None \<or> headers = Some h"
  shows "fst (read_listed listing (headers, d)) =
     (if headers = None \<and> (\<exists>(name, f) \<in> set listing. suffix (ascii ''.csv'') name)
      then Some h else headers)"
  using assms
proof (induction listing arbitrary: headers d)
  case Nil
  then show ?case by simp
next
  case (Cons entry listing)
  obtain name f where entry: "entry = (name, f)" by (cases entry)
  from Cons.prems(1) entry obtain rs where "f = Table h rs" and rest: "uniform_dir h listing"
    by (auto simp: uniform_dir_def split: csv_file.splits)
  then have f: "fst (read_csv f) = Some h" by (simp add: read_csv_def)
  show ?case
  proof (cases "suffix (ascii ''.csv'') name")
    case True
    have "(if headers = None then fst (read_csv f) else headers) = Some h"
      using Cons.prems(2) f by auto
    with Cons.IH [OF rest, of "Some h"] True entry Cons.prems(2) show ?thesis by auto
  next
    case False
    with Cons.IH [OF rest Cons.prems(2)] entry show ?thesis by auto
  qed
qed

lemma major_data_keys:
  assumes "uniform_dir h tama_dir"
  shows "list_all (\<lambda>r. list_all (\<lambda>k. k \<in> set h) (row_keys r)) (major_data tama_dir)"
proof -
  have "\<And>city f r. map_of tama_dir (city @ ascii ''.csv'') = Some f \<Longrightarrow> r \<in> set (snd (read_csv f))
      \<Longrightarrow> list_all (\<lambda>k. k \<in> set h) (row_keys r)"
  proof -
    fix city f r
    assume "map_of tama_dir (city @ ascii ''.csv'') = Some f" and r: "r \<in> set (snd (read_csv f))"
    then have "(city @ ascii ''.csv'', f) \<in> set tama_dir" by (simp add: map_of_SomeD)
    with assms r show "list_all (\<lambda>k. k \<in> set h) (row_keys r)"
      by (auto simp: uniform_dir_def list_all_iff read_csv_def split: csv_file.splits)
  qed
  then have "\<And>city f r. Some f = map_of tama_dir (city @ ascii ''.csv'') \<Longrightarrow> r \<in> set (snd (read_csv f))
      \<Longrightarrow> \<forall>k \<in> set (row_keys r). k \<in> set h"
    by (metis list_all_iff)
  then show ?thesis
    by (auto simp: major_data_def list_all_iff split: option.splits)
qed

lemma listed_data_keys:
  assumes "uniform_dir h listing"
  shows "list_all (\<lambda>r. list_all (\<lambda>k. k \<in> set h) (row_keys r)) (listed_data listing)"
  using assms
  by (fastforce simp: uniform_dir_def listed_data_def list_all_iff read_csv_def split: csv_file.splits)

lemma major_data_exists:
  "major_data tama_dir \<noteq> [] \<Longrightarrow> \<exists>city \<in> set major_cities. map_of tama_dir (city @ ascii ''.csv'') \<noteq> None"
  by (auto simp: major_data_def split: option.splits)

lemma listed_data_exists:
  "listed_data listing \<noteq> [] \<Longrightarrow> \<exists>(name, f) \<in> set listing. suffix (ascii ''.csv'') name"
  by (auto simp: listed_data_def)

lemma write_if_data_uniform:
  assumes "list_all (\<lambda>r. list_all (\<lambda>k. k \<in> set h) (row_keys r)) d" "h \<noteq> []"
    and "d \<noteq> [] \<longrightarrow> headers = Some h" "headers = None \<or> headers = Some h"
  shows "write_if_data p headers d = Inr (if d \<noteq> [] then [(p, Table h d)] else [])"
  using assms by (auto simp: write_if_data_def write_csv_def truthy_def)

lemma create_tama_uniform:
  assumes "uniform_dir h tama_dir" "uniform_dir h island_dir" "uniform_dir h nishi_tama_dir" "h \<noteq> []"
  shows "create_tama_integrated_files base tama_dir island_dir nishi_tama_dir =
     Inr ((if major_data tama_dir \<noteq> []
           then [(lightweight_path base (ascii ''tama_major_cities.csv''), Table h (major_data tama_dir))]
           else [])
        @ (if listed_data island_dir \<noteq> []
           then [(lightweight_path base (ascii ''islands_integrated.csv''), Table h (listed_data island_dir))]
           else [])
        @ (if listed_data nishi_tama_dir \<noteq> []
           then [(lightweight_path base (ascii ''nishi_tama_integrated.csv''),
                  Table h (listed_data nishi_tama_dir))]
           else []))"
proof -
  obtain h1 d1 where r1: "read_major_cities tama_dir major_cities (None, []) = (h1, d1)"
    by (cases "read_major_cities tama_dir major_cities (None, [])") auto
  obtain h2 d2 where r2: "read_listed island_dir (h1, []) = (h2, d2)"
    by (cases "read_listed island_dir (h1, [])") auto
  obtain h3 d3 where r3: "read_listed nishi_tama_dir (h2, []) = (h3, d3)"
    by (cases "read_listed nishi_tama_dir (h2, [])") auto
  have d1: "d1 = major_data tama_dir"
    using read_major_cities_data [of tama_dir major_cities None "[]"] r1
    by (simp add: major_data_def)
  have d2: "d2 = listed_data island_dir"
    using read_listed_data [of island_dir h1 "[]"] r2 by (simp add: listed_data_def)
  have d3: "d3 = listed_data nishi_tama_dir"
    using read_listed_data [of nishi_tama_dir h2 "[]"] r3 by (simp add: listed_data_def)
  have h1: "h1 = (if \<exists>city \<in> set major_cities. map_of tama_dir (city @ ascii ''.csv'') \<noteq> None
                  then Some h else None)"
    using read_major_cities_headers [OF assms(1), of None major_cities "[]"] r1 by simp
  then have h1': "h1 = None \<or> h1 = Some h" by auto
  have h2: "h2 = (if h1 = None \<and> (\<exists>(name, f) \<in> set island_dir. suffix (ascii ''.csv'') name)
                  then Some h else h1)"
    using read_listed_headers [OF assms(2) h1', of "[]"] r2 by simp
  then have h2': "h2 = None \<or> h2 = Some h" using h1' by auto
  have h3: "h3 = (if h2 = None \<and> (\<exists>(name, f) \<in> set nishi_tama_dir. suffix (ascii ''.csv'') name)
                  then Some h else h2)"
    using read_listed_headers [OF assms(3) h2', of "[]"] r3 by simp
  then have h3': "h3 = None \<or> h3 = Some h" using h2' by auto
  have e1: "d1 \<noteq> [] \<longrightarrow> h1 = Some h" using major_data_exists [of tama_dir] d1 h1 by auto
  have e2: "d2 \<noteq> [] \<longrightarrow> h2 = Some h" using listed_data_exists [of island_dir] d2 h2 h1' by auto
  have e3: "d3 \<noteq> [] \<longrightarrow> h3 = Some h" using listed_data_exists [of nishi_tama_dir] d3 h3 h2' by auto
  have k1: "list_all (\<lambda>r. list_all (\<lambda>k. k \<in> set h) (row_keys r)) d1"
    using major_data_keys [OF assms(1)] d1 by simp
  have k2: "list_all (\<lambda>r. list_all (\<lambda>k. k \<in> set h) (row_keys r)) d2"
    using listed_data_keys [OF assms(2)] d2 by simp
  have k3: "list_all (\<lambda>r. list_all (\<lambda>k. k \<in> set h) (row_keys r)) d3"
    using listed_data_keys [OF assms(3)] d3 by simp
  note w1 = write_if_data_uniform [OF k1 assms(4) e1 h1']
  note w2 = write_if_data_uniform [OF k2 assms(4) e2 h2']
  note w3 = write_if_data_uniform [OF k3 assms(4) e3 h3']
  show ?thesis
    by (simp add: create_tama_integrated_files_def r1 r2 r3 w1 w2 w3
        d1 [symmetric] d2 [symmetric] d3 [symmetric])
qed


subsection \<open>The example addresses and directories\<close>

lemmas area_lists = wards_23ku_def TAMA_CITIES_def NISHI_TAMA_GUN_def ISLAND_AREAS_def

lemma ex_area_city_and_ward:
  "extract_area_from_address ex_addr_city_and_ward = (ascii ''23ku'', wards_23ku ! 2)"
  by (simp add: extract_area_from_address_def area_lists ex_addr_city_and_ward_def)

lemma ex_area_hachioji:
  "extract_area_from_address ex_addr_hachioji = (ascii ''tama_city'', TAMA_CITIES ! 0)"
  by (simp add: extract_area_from_address_def area_lists ex_addr_hachioji_def)

lemma ex_area_okutama:
  "extract_area_from_address ex_addr_okutama = (ascii ''nishi_tama'', NISHI_TAMA_GUN ! 3)"
  by (simp add: extract_area_from_address_def area_lists ex_addr_okutama_def)

lemma ex_area_oshima:
  "extract_area_from_address ex_addr_oshima = (ascii ''island'', ISLAND_AREAS ! 0)"
  by (simp add: extract_area_from_address_def area_lists ex_addr_oshima_def)

lemma ex_area_osaka:
  "extract_area_from_address ex_addr_osaka = (ascii ''other'', str_sonota)"
  by (simp add: extract_area_from_address_def area_lists ex_addr_osaka_def)

lemma ex_hachioji_hyp:
  "(\<forall>n \<in> set wards_23ku. \<not> str_in n ex_addr_hachioji)
   \<and> (\<exists>n \<in> set TAMA_CITIES. str_in n ex_addr_hachioji)"
  by (simp add: area_lists ex_addr_hachioji_def)

lemma ex_osaka_hyp:
  "(\<forall>n \<in> set wards_23ku. \<not> str_in n ex_addr_osaka)
   \<and> (\<forall>n \<in> set TAMA_CITIES. \<not> str_in n ex_addr_osaka)
   \<and> (\<forall>n \<in> set NISHI_TAMA_GUN. \<not> str_in n ex_addr_osaka)
   \<and> (\<forall>n \<in> set ISLAND_AREAS. \<not> str_in n ex_addr_osaka)"
  by (simp add: area_lists ex_addr_osaka_def)

lemma ex_dirs_uniform:
  "uniform_dir ex_headers ex_tama_dir \<and> uniform_dir ex_headers [] \<and> uniform_dir ex_headers ex_nishi_dir
   \<and> ex_headers \<noteq> []"
proof -
  have "row_keys ex_row_okutama = ex_headers"
    by (simp add: row_keys_def ex_row_okutama_def ex_headers_def)
  moreover have "ex_headers \<noteq> []" by (simp add: ex_headers_def)
  ultimately show ?thesis
    by (simp add: uniform_dir_def ex_tama_dir_def ex_nishi_dir_def ex_rows_keys list_all_iff)
qed

lemma ex_major_data: "major_data ex_tama_dir = [ex_row_hachioji, ex_row_center, ex_row_hachioji]"
  by (simp add: major_data_def major_cities_def ex_tama_dir_def TAMA_CITIES_def read_csv_def ascii_def)

lemma ex_nishi_data: "listed_data ex_nishi_dir = [ex_row_okutama]"
  by (simp add: listed_data_def ex_nishi_dir_def NISHI_TAMA_GUN_def read_csv_def ascii_def
      suffix_to_prefix)

lemma ex_no_data: "listed_data [] = []"
  by (simp add: listed_data_def)

subsection \<open>The order of the classifier and the aggregation\<close>

text \<open>
  Claim C7. The region classifier is total and tests the lists in a fixed order: when
  some ward occurs in the address the result is the category 23ku with the first such
  ward; otherwise, when some Tama city occurs, tama\_city with the first such city;
  otherwise, when some Nishitama town occurs, nishi\_tama with the first such town;
  otherwise, when some island occurs, island with the first such island; otherwise the
  pair of other and sono-ta. The lists have 23, 26, 4 and 9 entries, and the 8 major
  cities are Tama cities. When the aggregation succeeds, the files written are, in
  order, at most the major-cities file, the islands file and the Nishitama file, each
  written only when its source data is not empty, and each holding exactly the
  concatenation of the rows of its source files (nothing removed, nothing merged). In
  directories that are uniform for one non-empty header, the aggregation succeeds and
  writes a file exactly when its source data is not empty.
\<close>

theorem region_classification:
  "((\<exists>n \<in> set wards_23ku. str_in n address) \<longrightarrow>
      (\<exists>n. first_in wards_23ku address n
          \<and> extract_area_from_address address = (ascii ''23ku'', n)))
   \<and> ((\<forall>n \<in> set wards_23ku. \<not> str_in n address) \<and> (\<exists>n \<in> set TAMA_CITIES. str_in n address) \<longrightarrow>
      (\<exists>n. first_in TAMA_CITIES address n
          \<and> extract_area_from_address address = (ascii ''tama_city'', n)))
   \<and> ((\<forall>n \<in> set wards_23ku. \<not> str_in n address) \<and> (\<forall>n \<in> set TAMA_CITIES. \<not> str_in n address)
        \<and> (\<exists>n \<in> set NISHI_TAMA_GUN. str_in n address) \<longrightarrow>
      (\<exists>n. first_in NISHI_TAMA_GUN address n
          \<and> extract_area_from_address address = (ascii ''nishi_tama'', n)))
   \<and> ((\<forall>n \<in> set wards_23ku. \<not> str_in n address) \<and> (\<forall>n \<in> set TAMA_CITIES. \<not> str_in n address)
        \<and> (\<forall>n \<in> set NISHI_TAMA_GUN. \<not> str_in n address)
        \<and> (\<exists>n \<in> set ISLAND_AREAS. str_in n address) \<longrightarrow>
      (\<exists>n. first_in ISLAND_AREAS address n
          \<and> extract_area_from_address address = (ascii ''island'', n)))
   \<and> ((\<forall>n \<in> set wards_23ku. \<not> str_in n address) \<and> (\<forall>n \<in> set TAMA_CITIES. \<not> str_in n address)
        \<and> (\<forall>n \<in> set NISHI_TAMA_GUN. \<not> str_in n address)
        \<and> (\<forall>n \<in> set ISLAND_AREAS. \<not> str_in n address) \<longrightarrow>
      extract_area_from_address address = (ascii ''other'', str_sonota))
   \<and> length wards_23ku = 23 \<and> length TAMA_CITIES = 26 \<and> length NISHI_TAMA_GUN = 4
   \<and> length ISLAND_AREAS = 9 \<and> length major_cities = 8 \<and> set major_cities \<subseteq> set TAMA_CITIES
   \<and> (create_tama_integrated_files base tama_dir island_dir nishi_tama_dir = Inr written \<longrightarrow>
        (\<exists>w1 w2 w3. written = w1 @ w2 @ w3
           \<and> (w1 = [] \<or> (major_data tama_dir \<noteq> []
                 \<and> (\<exists>h. w1 = [(lightweight_path base (ascii ''tama_major_cities.csv''),
                                 Table h (major_data tama_dir))])))
           \<and> (w2 = [] \<or> (listed_data island_dir \<noteq> []
                 \<and> (\<exists>h. w2 = [(lightweight_path base (ascii ''islands_integrated.csv''),
                                 Table h (listed_data island_dir))])))
           \<and> (w3 = [] \<or> (listed_data nishi_tama_dir \<noteq> []
                 \<and> (\<exists>h. w3 = [(lightweight_path base (ascii ''nishi_tama_integrated.csv''),
                                 Table h (listed_data nishi_tama_dir))])))))
   \<and> (uniform_dir h tama_dir \<and> uniform_dir h island_dir \<and> uniform_dir h nishi_tama_dir \<and> h \<noteq> [] \<longrightarrow>
        create_tama_integrated_files base tama_dir island_dir nishi_tama_dir =
          Inr ((if major_data tama_dir \<noteq> []
                then [(lightweight_path base (ascii ''tama_major_cities.csv''),
                       Table h (major_data tama_dir))]
                else [])
             @ (if listed_data island_dir \<noteq> []
                then [(lightweight_path base (ascii ''islands_integrated.csv''),
                       Table h (listed_data island_dir))]
                else [])
             @ (if listed_data nishi_tama_dir \<noteq> []
                then [(lightweight_path base (ascii ''nishi_tama_integrated.csv''),
                       Table h (listed_data nishi_tama_dir))]
                else [])))"
proof -
  have c1: "(\<exists>n \<in> set wards_23ku. str_in n address) \<longrightarrow>
      (\<exists>n. first_in wards_23ku address n
          \<and> extract_area_from_address address = (ascii ''23ku'', n))"
    using extract_area_23ku by blast
  have c2: "(\<forall>n \<in> set wards_23ku. \<not> str_in n address) \<and> (\<exists>n \<in> set TAMA_CITIES. str_in n address) \<longrightarrow>
      (\<exists>n. first_in TAMA_CITIES address n
          \<and> extract_area_from_address address = (ascii ''tama_city'', n))"
    using extract_area_tama by blast
  have c3: "(\<forall>n \<in> set wards_23ku. \<not> str_in n address) \<and> (\<forall>n \<in> set TAMA_CITIES. \<not> str_in n address)
        \<and> (\<exists>n \<in> set NISHI_TAMA_GUN. str_in n address) \<longrightarrow>
      (\<exists>n. first_in NISHI_TAMA_GUN address n
          \<and> extract_area_from_address address = (ascii ''nishi_tama'', n))"
    using extract_area_nishi by blast
  have c4: "(\<forall>n \<in> set wards_23ku. \<not> str_in n address) \<and> (\<forall>n \<in> set TAMA_CITIES. \<not> str_in n address)
        \<and> (\<forall>n \<in> set NISHI_TAMA_GUN. \<not> str_in n address)
        \<and> (\<exists>n \<in> set ISLAND_AREAS. str_in n address) \<longrightarrow>
      (\<exists>n. first_in ISLAND_AREAS address n
          \<and> extract_area_from_address address = (ascii ''island'', n))"
    using extract_area_island by blast
  have c5: "(\<forall>n \<in> set wards_23ku. \<not> str_in n address) \<and> (\<forall>n \<in> set TAMA_CITIES. \<not> str_in n address)
        \<and> (\<forall>n \<in> set NISHI_TAMA_GUN. \<not> str_in n address)
        \<and> (\<forall>n \<in> set ISLAND_AREAS. \<not> str_in n address) \<longrightarrow>
      extract_area_from_address address = (ascii ''other'', str_sonota)"
    using extract_area_other by blast
  have l1: "length wards_23ku = 23" by (simp add: wards_23ku_def)
  have l2: "length TAMA_CITIES = 26" by (simp add: TAMA_CITIES_def)
  have l3: "length NISHI_TAMA_GUN = 4" by (simp add: NISHI_TAMA_GUN_def)
  have l4: "length ISLAND_AREAS = 9" by (simp add: ISLAND_AREAS_def)
  have l5: "length major_cities = 8" by (simp add: major_cities_def)
  have c7: "set major_cities \<subseteq> set TAMA_CITIES"
    by (simp add: major_cities_def TAMA_CITIES_def)
  have c8: "create_tama_integrated_files base tama_dir island_dir nishi_tama_dir = Inr written \<longrightarrow>
        (\<exists>w1 w2 w3. written = w1 @ w2 @ w3
           \<and> (w1 = [] \<or> (major_data tama_dir \<noteq> []
                 \<and> (\<exists>h. w1 = [(lightweight_path base (ascii ''tama_major_cities.csv''),
                                 Table h (major_data tama_dir))])))
           \<and> (w2 = [] \<or> (listed_data island_dir \<noteq> []
                 \<and> (\<exists>h. w2 = [(lightweight_path base (ascii ''islands_integrated.csv''),
                                 Table h (listed_data island_dir))])))
           \<and> (w3 = [] \<or> (listed_data nishi_tama_dir \<noteq> []
                 \<and> (\<exists>h. w3 = [(lightweight_path base (ascii ''nishi_tama_integrated.csv''),
                                 Table h (listed_data nishi_tama_dir))]))))"
    using create_tama_written by blast
  have c9: "uniform_dir h tama_dir \<and> uniform_dir h island_dir \<and> uniform_dir h nishi_tama_dir \<and> h \<noteq> [] \<longrightarrow>
        create_tama_integrated_files base tama_dir island_dir nishi_tama_dir =
          Inr ((if major_data tama_dir \<noteq> []
                then [(lightweight_path base (ascii ''tama_major_cities.csv''),
                       Table h (major_data tama_dir))]
                else [])
             @ (if listed_data island_dir \<noteq> []
                then [(lightweight_path base (ascii ''islands_integrated.csv''),
                       Table h (listed_data island_dir))]
                else [])
             @ (if listed_data nishi_tama_dir \<noteq> []
                then [(lightweight_path base (ascii ''nishi_tama_integrated.csv''),
                       Table h (listed_data nishi_tama_dir))]
                else []))"
    using create_tama_uniform by blast
  show ?thesis by (intro conjI; fact)
qed


theorem region_classification_witness:
  "extract_area_from_address ex_addr_city_and_ward = (ascii ''23ku'', wards_23ku ! 2)
   \<and> (\<exists>n. first_in TAMA_CITIES ex_addr_hachioji n
          \<and> extract_area_from_address ex_addr_hachioji = (ascii ''tama_city'', n))
   \<and> extract_area_from_address ex_addr_hachioji = (ascii ''tama_city'', TAMA_CITIES ! 0)
   \<and> extract_area_from_address ex_addr_okutama = (ascii ''nishi_tama'', NISHI_TAMA_GUN ! 3)
   \<and> extract_area_from_address ex_addr_oshima = (ascii ''island'', ISLAND_AREAS ! 0)
   \<and> extract_area_from_address ex_addr_osaka = (ascii ''other'', str_sonota)
   \<and> create_tama_integrated_files (ascii ''data'') ex_tama_dir [] ex_nishi_dir
       = Inr [(ascii ''data/lightweight/tama_major_cities.csv'',
               Table ex_headers [ex_row_hachioji, ex_row_center, ex_row_hachioji]),
              (ascii ''data/lightweight/nishi_tama_integrated.csv'',
               Table ex_headers [ex_row_okutama])]"
proof -
  from region_classification [where address = ex_addr_hachioji, THEN conjunct2, THEN conjunct1,
      THEN mp, OF ex_hachioji_hyp]
  have tama: "\<exists>n. first_in TAMA_CITIES ex_addr_hachioji n
          \<and> extract_area_from_address ex_addr_hachioji = (ascii ''tama_city'', n)" .
  from region_classification [where address = ex_addr_osaka, THEN conjunct2, THEN conjunct2,
      THEN conjunct2, THEN conjunct2, THEN conjunct1, THEN mp, OF ex_osaka_hyp]
  have other: "extract_area_from_address ex_addr_osaka = (ascii ''other'', str_sonota)" .
  from region_classification [where h = ex_headers and tama_dir = ex_tama_dir and island_dir = "[]"
      and nishi_tama_dir = ex_nishi_dir and base = "ascii ''data''",
      THEN conjunct2, THEN conjunct2, THEN conjunct2, THEN conjunct2, THEN conjunct2, THEN conjunct2, THEN conjunct2, THEN conjunct2, THEN conjunct2, THEN conjunct2, THEN conjunct2, THEN conjunct2, THEN mp, OF ex_dirs_uniform]
  have files: "create_tama_integrated_files (ascii ''data'') ex_tama_dir [] ex_nishi_dir
       = Inr [(ascii ''data/lightweight/tama_major_cities.csv'',
               Table ex_headers [ex_row_hachioji, ex_row_center, ex_row_hachioji]),
              (ascii ''data/lightweight/nishi_tama_integrated.csv'',
               Table ex_headers [ex_row_okutama])]"
    by (simp add: ex_major_data ex_nishi_data ex_no_data lightweight_path_def path_join_def ascii_def)
  from ex_area_city_and_ward tama ex_area_hachioji ex_area_okutama ex_area_oshima other files
  show ?thesis by (intro conjI)
qed

end
